theory Spec2Isabelle
  imports Main "HOL-Library.Sublist"
begin

section \<open>JavaScript values, exceptions and effects\<close>

text \<open>
  The handler of \<^verbatim>\<open>src/update-task-dns.js\<close> receives its event and the replies of the
  service clients as dynamically typed JSON data. A value is one of the JSON shapes;
  an object is the list of its own properties (a name is looked up from the front), a
  number is an integer (the program only tests numbers for truth and turns them into
  property names). Objects are plain data, as the events and the replies of the services
  are: no property is named \<^verbatim>\<open>toString\<close> or \<^verbatim>\<open>valueOf\<close>, so that printing a value
  into a message or using it as a property name always yields a string.
\<close>

datatype jsval =
    JUndefined
  | JNull
  | JBool bool
  | JNum int
  | JStr string
  | JArr "jsval list"
  | JObj "(string \<times> jsval) list"

text \<open>
  What an invocation can throw: the two language errors that the code can raise itself,
  and the rejection of a service call, with the error the service client reports.
\<close>

datatype exn = TypeError | ReferenceError | ServiceError jsval

text \<open>The five remote operations the program calls, each with its parameter object.\<close>

datatype api_call =
    ListTagsForResource jsval
  | DescribeNetworkInterfaces jsval
  | DescribeContainerInstances jsval
  | DescribeInstances jsval
  | ChangeResourceRecordSets jsval

text \<open>
  The observable events of an invocation, in the order in which they happen: a line
  written by \<^verbatim>\<open>console.log\<close> (its fixed text and the values printed into it), a
  request sent to a service, and the settling of that request's promise.
\<close>

datatype effect =
    ConsoleLog string "jsval list"
  | Send api_call
  | Recv api_call "exn + jsval"

text \<open>
  The services are a parameter: a function from the request to the outcome of its
  promise (\<open>Inl\<close> a rejection, \<open>Inr\<close> the reply). An invocation sends each kind of
  request at most once, so a function of the request loses nothing.
\<close>

type_synonym cloud = "api_call \<Rightarrow> exn + jsval"

text \<open>
  A computation yields what it throws or returns, together with the events it caused.
\<close>

type_synonym 'a io = "(exn + 'a) \<times> effect list"

definition bind_exn :: "exn + 'a \<Rightarrow> ('a \<Rightarrow> exn + 'b) \<Rightarrow> exn + 'b" where
  "bind_exn m f = (case m of Inl e \<Rightarrow> Inl e | Inr x \<Rightarrow> f x)"

definition bind_io :: "'a io \<Rightarrow> ('a \<Rightarrow> 'b io) \<Rightarrow> 'b io" where
  "bind_io m f =
     (case m of
        (Inl e, es) \<Rightarrow> (Inl e, es)
      | (Inr x, es) \<Rightarrow> (case f x of (r, es') \<Rightarrow> (r, es @ es')))"

definition pure_io :: "exn + 'a \<Rightarrow> 'a io" where
  "pure_io r = (r, [])"

definition console_log :: "string \<Rightarrow> jsval list \<Rightarrow> unit io" where
  "console_log text args = (Inr (), [ConsoleLog text args])"

text \<open>
  \<^verbatim>\<open>await service.operation(params).promise()\<close>: the request is sent, the caller is
  suspended until the promise settles, and a rejection is thrown at the \<^verbatim>\<open>await\<close>.
\<close>

definition await :: "cloud \<Rightarrow> api_call \<Rightarrow> jsval io" where
  "await aws c = (aws c, [Send c, Recv c (aws c)])"

subsection \<open>Truthiness, property reads, string conversion\<close>

fun truthy :: "jsval \<Rightarrow> bool" where
  "truthy JUndefined = False"
| "truthy JNull = False"
| "truthy (JBool b) = b"
| "truthy (JNum n) = (n \<noteq> 0)"
| "truthy (JStr s) = (s \<noteq> [])"
| "truthy (JArr xs) = True"
| "truthy (JObj kvs) = True"

text \<open>
  \<^verbatim>\<open>v.name\<close> and \<^verbatim>\<open>v['name']\<close>. Reading a property of \<^verbatim>\<open>undefined\<close> or \<^verbatim>\<open>null\<close>
  throws a TypeError. On any other value a name that is not an own property is looked up
  in the built-in prototype; none of the names that the program reads (\<^verbatim>\<open>detail\<close>,
  \<^verbatim>\<open>clusterArn\<close>, \<^verbatim>\<open>taskArn\<close>, \<^verbatim>\<open>containerInstanceArn\<close>, \<^verbatim>\<open>group\<close>, \<^verbatim>\<open>attachments\<close>,
  \<^verbatim>\<open>type\<close>, \<^verbatim>\<open>details\<close>, \<^verbatim>\<open>name\<close>, \<^verbatim>\<open>value\<close>, \<^verbatim>\<open>key\<close>, \<^verbatim>\<open>tags\<close>, \<^verbatim>\<open>domain\<close>,
  \<^verbatim>\<open>hostedZoneId\<close>, and the fields of the service replies) is defined there, so the
  read gives \<^verbatim>\<open>undefined\<close>.
\<close>

fun get_prop :: "jsval \<Rightarrow> string \<Rightarrow> exn + jsval" where
  "get_prop JUndefined k = Inl TypeError"
| "get_prop JNull k = Inl TypeError"
| "get_prop (JObj kvs) k = Inr (case map_of kvs k of None \<Rightarrow> JUndefined | Some v \<Rightarrow> v)"
| "get_prop v k = Inr JUndefined"

definition digit_char :: "nat \<Rightarrow> char" where
  "digit_char d = ''0123456789'' ! d"

fun show_nat :: "nat \<Rightarrow> string" where
  "show_nat n = (if n < 10 then [digit_char n] else show_nat (n div 10) @ [digit_char (n mod 10)])"

declare show_nat.simps [simp del]

definition show_int :: "int \<Rightarrow> string" where
  "show_int i = (if i < 0 then CHR ''-'' # show_nat (nat (- i)) else show_nat (nat i))"

text \<open>\<^verbatim>\<open>v[i]\<close> for a constant index: an element, a character, or the property of that name.\<close>

fun get_index :: "jsval \<Rightarrow> nat \<Rightarrow> exn + jsval" where
  "get_index JUndefined i = Inl TypeError"
| "get_index JNull i = Inl TypeError"
| "get_index (JArr xs) i = Inr (if i < length xs then xs ! i else JUndefined)"
| "get_index (JStr s) i = Inr (if i < length s then JStr [s ! i] else JUndefined)"
| "get_index (JObj kvs) i = get_prop (JObj kvs) (show_nat i)"
| "get_index v i = Inr JUndefined"

fun intersperse :: "'a list \<Rightarrow> 'a list list \<Rightarrow> 'a list" where
  "intersperse sep [] = []"
| "intersperse sep [x] = x"
| "intersperse sep (x # y # ys) = x @ sep @ intersperse sep (y # ys)"

text \<open>
  The conversion to a string that a template literal and a computed property name
  apply. An array prints its elements separated by commas, \<^verbatim>\<open>null\<close> and
  \<^verbatim>\<open>undefined\<close> elements as nothing. Numbers print in plain decimal, as JavaScript
  does below \<open>10\<^sup>2\<^sup>1\<close>.
\<close>

fun to_string :: "jsval \<Rightarrow> string" where
  "to_string JUndefined = ''undefined''"
| "to_string JNull = ''null''"
| "to_string (JBool b) = (if b then ''true'' else ''false'')"
| "to_string (JNum n) = show_int n"
| "to_string (JStr s) = s"
| "to_string (JArr xs) =
     intersperse '','' (map (\<lambda>x. if x = JUndefined \<or> x = JNull then [] else to_string x) xs)"
| "to_string (JObj kvs) = ''[object Object]''"

subsection \<open>String.prototype.split\<close>

function split_from :: "string \<Rightarrow> string \<Rightarrow> string \<Rightarrow> string list" where
  "split_from sep acc s =
     (if s = [] then [rev acc]
      else if sep \<noteq> [] \<and> prefix sep s then rev acc # split_from sep [] (drop (length sep) s)
      else split_from sep (hd s # acc) (tl s))"
  by pat_completeness auto
termination
  by (relation "measure (\<lambda>(sep, acc, s). length s)") auto

declare split_from.simps [simp del]

text \<open>
  \<^verbatim>\<open>v.split(sep)\<close> with a non-empty separator. Only a string has the method: on
  \<^verbatim>\<open>undefined\<close> and \<^verbatim>\<open>null\<close> the property read throws, on every other JSON value
  \<^verbatim>\<open>v.split\<close> is not a function; both are TypeErrors.
\<close>

fun js_split :: "jsval \<Rightarrow> string \<Rightarrow> exn + jsval" where
  "js_split (JStr s) sep = Inr (JArr (map JStr (split_from sep [] s)))"
| "js_split v sep = Inl TypeError"

subsection \<open>The collections lodash iterates\<close>

text \<open>
  \<^verbatim>\<open>_.reduce\<close>, \<^verbatim>\<open>_.filter\<close> and \<^verbatim>\<open>_.map\<close> of lodash (a library outside the
  repository, modelled from its documentation) visit the elements of an array, the
  characters of a string, the indices below \<^verbatim>\<open>length\<close> of an object that has a valid
  \<^verbatim>\<open>length\<close>, the own property values of any other object, and nothing of any other
  value. An object lists its properties in enumeration order.
\<close>

fun own_values :: "string list \<Rightarrow> (string \<times> jsval) list \<Rightarrow> jsval list" where
  "own_values seen [] = []"
| "own_values seen ((k, v) # kvs) =
     (if k \<in> set seen then own_values seen kvs else v # own_values (k # seen) kvs)"

definition is_length :: "int \<Rightarrow> bool" where
  "is_length n = (0 \<le> n \<and> n \<le> 9007199254740991)"

fun collection :: "jsval \<Rightarrow> jsval list" where
  "collection (JArr xs) = xs"
| "collection (JStr s) = map (\<lambda>c. JStr [c]) s"
| "collection (JObj kvs) =
     (case map_of kvs ''length'' of
        Some (JNum n) \<Rightarrow>
          if is_length n
          then map (\<lambda>i. case map_of kvs (show_nat i) of None \<Rightarrow> JUndefined | Some v \<Rightarrow> v)
                 [0..<nat n]
          else own_values [] kvs
      | _ \<Rightarrow> own_values [] kvs)"
| "collection v = []"

text \<open>
  The iteratees of the program can throw (a property read on a \<^verbatim>\<open>null\<close> element), so
  the three traversals stop at the first exception. Every element is visited, in order,
  as the documentation of each function says. (A lodash chain may fuse \<^verbatim>\<open>filter\<close>,
  \<^verbatim>\<open>map\<close> and \<^verbatim>\<open>head\<close> and stop at the first result; the value returned is the
  same, and fewer elements are inspected.)
\<close>

fun reduce_exn :: "('b \<Rightarrow> 'a \<Rightarrow> exn + 'b) \<Rightarrow> 'a list \<Rightarrow> 'b \<Rightarrow> exn + 'b" where
  "reduce_exn f [] acc = Inr acc"
| "reduce_exn f (x # xs) acc = bind_exn (f acc x) (reduce_exn f xs)"

fun filter_exn :: "('a \<Rightarrow> exn + bool) \<Rightarrow> 'a list \<Rightarrow> exn + 'a list" where
  "filter_exn p [] = Inr []"
| "filter_exn p (x # xs) =
     bind_exn (p x) (\<lambda>keep.
     bind_exn (filter_exn p xs) (\<lambda>ys. Inr (if keep then x # ys else ys)))"

fun map_exn :: "('a \<Rightarrow> exn + 'b) \<Rightarrow> 'a list \<Rightarrow> exn + 'b list" where
  "map_exn f [] = Inr []"
| "map_exn f (x # xs) =
     bind_exn (f x) (\<lambda>y.
     bind_exn (map_exn f xs) (\<lambda>ys. Inr (y # ys)))"

fun head :: "jsval list \<Rightarrow> jsval" where
  "head [] = JUndefined"
| "head (x # xs) = x"

subsection \<open>The accumulator object of fetchTags\<close>

text \<open>
  \<^verbatim>\<open>fetchTags\<close> starts from the literal \<^verbatim>\<open>{}\<close> and assigns \<^verbatim>\<open>hash[key] = value\<close>.
  The literal inherits from \<^verbatim>\<open>Object.prototype\<close>, whose only setter is \<^verbatim>\<open>__proto__\<close>:
  an assignment to that name that reaches the setter creates no property; it replaces
  the prototype when the value is an object or \<^verbatim>\<open>null\<close> and does nothing otherwise.
  Every other assignment creates or overwrites an own property.
\<close>

datatype parent = ObjectPrototype | NoPrototype | Inherit jsval

record hash =
  props :: "string \<rightharpoonup> jsval"
  parent :: parent

definition empty_hash :: hash where
  "empty_hash = \<lparr>props = Map.empty, parent = ObjectPrototype\<rparr>"

fun setter_inherited :: "parent \<Rightarrow> bool" where
  "setter_inherited ObjectPrototype = True"
| "setter_inherited NoPrototype = False"
| "setter_inherited (Inherit (JObj kvs)) = (map_of kvs ''__proto__'' = None)"
| "setter_inherited (Inherit v) = True"

fun set_prototype :: "hash \<Rightarrow> jsval \<Rightarrow> hash" where
  "set_prototype h (JObj kvs) = h\<lparr>parent := Inherit (JObj kvs)\<rparr>"
| "set_prototype h (JArr xs) = h\<lparr>parent := Inherit (JArr xs)\<rparr>"
| "set_prototype h JNull = h\<lparr>parent := NoPrototype\<rparr>"
| "set_prototype h v = h"

definition hash_put :: "hash \<Rightarrow> string \<Rightarrow> jsval \<Rightarrow> hash" where
  "hash_put h k v =
     (if k = ''__proto__'' \<and> props h k = None \<and> setter_inherited (parent h)
      then set_prototype h v
      else h\<lparr>props := (props h)(k \<mapsto> v)\<rparr>)"

text \<open>\<^verbatim>\<open>tags['domain']\<close>: an own property, else the property of the prototype.\<close>

definition hash_get :: "hash \<Rightarrow> string \<Rightarrow> jsval" where
  "hash_get h k =
     (case props h k of
        Some v \<Rightarrow> v
      | None \<Rightarrow>
          (case parent h of
             Inherit p \<Rightarrow> (case get_prop p k of Inr v \<Rightarrow> v | Inl e \<Rightarrow> JUndefined)
           | _ \<Rightarrow> JUndefined))"

section \<open>The program\<close>

text \<open>\<^verbatim>\<open>fetchTags\<close> (lines 67 to 76).\<close>

definition tag_step :: "hash \<Rightarrow> jsval \<Rightarrow> exn + hash" where
  "tag_step h tag =
     bind_exn (get_prop tag ''key'') (\<lambda>key.
     bind_exn (get_prop tag ''value'') (\<lambda>v.
     Inr (hash_put h (to_string key) v)))"

definition fetchTags :: "cloud \<Rightarrow> jsval \<Rightarrow> hash io" where
  "fetchTags aws arn =
     bind_io (await aws (ListTagsForResource (JObj [(''resourceArn'', arn)]))) (\<lambda>response.
     pure_io (bind_exn (get_prop response ''tags'') (\<lambda>tags.
              reduce_exn tag_step (collection tags) empty_hash)))"

text \<open>\<^verbatim>\<open>getEniId\<close> (lines 78 to 96).\<close>

definition eni_attachment_id :: "jsval \<Rightarrow> exn + jsval" where
  "eni_attachment_id eniAttachment =
     bind_exn (get_prop eniAttachment ''details'') (\<lambda>details.
     bind_exn (filter_exn (\<lambda>d. bind_exn (get_prop d ''name'') (\<lambda>n.
                 Inr (n = JStr ''networkInterfaceId''))) (collection details)) (\<lambda>named.
     bind_exn (map_exn (\<lambda>d. get_prop d ''value'') named) (\<lambda>vals.
     Inr (head vals))))"

definition getEniId :: "jsval \<Rightarrow> exn + jsval" where
  "getEniId task =
     bind_exn (get_prop task ''attachments'') (\<lambda>attachments.
     bind_exn (filter_exn (\<lambda>a. bind_exn (get_prop a ''type'') (\<lambda>t.
                 Inr (t = JStr ''eni''))) (collection attachments)) (\<lambda>enis.
     bind_exn (map_exn eni_attachment_id enis) (\<lambda>ids.
     Inr (head ids))))"

text \<open>\<^verbatim>\<open>fetchEC2PublicIp\<close> (lines 98 to 111).\<close>

definition fetchEC2PublicIp :: "cloud \<Rightarrow> jsval \<Rightarrow> jsval io" where
  "fetchEC2PublicIp aws instance =
     bind_io (await aws (DescribeInstances (JObj [(''InstanceIds'', JArr [instance])]))) (\<lambda>data.
     if \<not> truthy data
     then bind_io (console_log ''Error describing Instance'' []) (\<lambda>_. pure_io (Inr JUndefined))
     else
       bind_io (console_log ''Received data from describe Instances: %j'' [data]) (\<lambda>_.
       bind_io (pure_io
         (bind_exn (get_prop data ''Reservations'') (\<lambda>rs.
          bind_exn (get_index rs 0) (\<lambda>r.
          bind_exn (get_prop r ''Instances'') (\<lambda>is.
          bind_exn (get_index is 0) (\<lambda>i.
          get_prop i ''PublicIpAddress'')))))) (\<lambda>publicIp.
       bind_io (console_log ''Got Public Ip Address %s'' [publicIp]) (\<lambda>_.
       pure_io (Inr publicIp)))))"

text \<open>\<^verbatim>\<open>fetchEniPublicIp\<close> (lines 113 to 120).\<close>

definition fetchEniPublicIp :: "cloud \<Rightarrow> jsval \<Rightarrow> jsval io" where
  "fetchEniPublicIp aws eniId =
     bind_io (await aws (DescribeNetworkInterfaces
                (JObj [(''NetworkInterfaceIds'', JArr [eniId])]))) (\<lambda>data.
     pure_io
       (bind_exn (get_prop data ''NetworkInterfaces'') (\<lambda>ns.
        bind_exn (get_index ns 0) (\<lambda>n.
        bind_exn (get_prop n ''PrivateIpAddresses'') (\<lambda>ps.
        bind_exn (get_index ps 0) (\<lambda>p.
        bind_exn (get_prop p ''Association'') (\<lambda>a.
        get_prop a ''PublicIp'')))))))"

text \<open>
  \<^verbatim>\<open>fetchContainerPublicIp\<close> (lines 122 to 147). The messages of lines 130 and 136
  interpolate \<^verbatim>\<open>cluster\<close> and \<^verbatim>\<open>instance\<close>, which are declared nowhere (the
  declaration of lines 123 to 126 is commented out): evaluating the template literal
  throws a ReferenceError before anything is printed.
\<close>

definition fetchContainerPublicIp :: "cloud \<Rightarrow> jsval \<Rightarrow> jsval io" where
  "fetchContainerPublicIp aws params =
     bind_io (await aws (DescribeContainerInstances params)) (\<lambda>data.
     if \<not> truthy data then pure_io (Inl ReferenceError)
     else
       bind_io (pure_io
         (bind_exn (get_prop data ''containerInstances'') (\<lambda>cs.
          bind_exn (get_index cs 0) (\<lambda>c.
          get_prop c ''ec2InstanceId'')))) (\<lambda>ec2Id.
       bind_io (console_log ''Fetched ec2InstanceId ${ec2Id}'' [ec2Id]) (\<lambda>_.
       if \<not> truthy ec2Id then pure_io (Inl ReferenceError)
       else
         bind_io (fetchEC2PublicIp aws ec2Id) (\<lambda>publicIp.
         if \<not> truthy publicIp
         then bind_io (console_log ''Could not fetch public IP for instance ${ec2Id}'' [ec2Id])
                (\<lambda>_. pure_io (Inr JUndefined))
         else pure_io (Inr publicIp)))))"

text \<open>\<^verbatim>\<open>createRecordSet\<close> (lines 149 to 163).\<close>

definition createRecordSet :: "jsval \<Rightarrow> jsval \<Rightarrow> jsval" where
  "createRecordSet domain publicIp =
     JObj [(''Action'', JStr ''UPSERT''),
           (''ResourceRecordSet'',
            JObj [(''Name'', domain),
                  (''Type'', JStr ''A''),
                  (''TTL'', JNum 180),
                  (''ResourceRecords'', JArr [JObj [(''Value'', publicIp)]])])]"

text \<open>\<^verbatim>\<open>updateDnsRecord\<close> (lines 165 to 175).\<close>

definition updateDnsRecord :: "cloud \<Rightarrow> jsval \<Rightarrow> jsval \<Rightarrow> jsval \<Rightarrow> unit io" where
  "updateDnsRecord aws clusterName hostedZoneId changeRecordSet =
     (let param =
        JObj [(''ChangeBatch'',
               JObj [(''Comment'',
                      JStr (''Auto generated Record for ECS cluster '' @ to_string clusterName)),
                     (''Changes'', JArr [changeRecordSet])]),
              (''HostedZoneId'', hostedZoneId)]
      in bind_io (await aws (ChangeResourceRecordSets param)) (\<lambda>updateResult.
         console_log ''updateResult: %j'' [updateResult]))"

text \<open>
  \<^verbatim>\<open>exports.handler\<close> (lines 14 to 65), in four parts. Lines 36 to 56 choose the
  lookup by launch type and yield the address found (\<open>Some\<close>, whatever the lookup
  returned), or \<open>None\<close> where the handler returns at line 54.
\<close>

definition resolve_public_ip :: "cloud \<Rightarrow> jsval \<Rightarrow> jsval \<Rightarrow> jsval option io" where
  "resolve_public_ip aws task clusterArn =
     bind_io (pure_io (getEniId task)) (\<lambda>eniId.
     bind_io (pure_io (get_prop task ''containerInstanceArn'')) (\<lambda>containerInstanceArn.
     if truthy eniId
     then
       bind_io (console_log ''Fetched eniId ${eniId}'' [eniId]) (\<lambda>_.
       bind_io (fetchEniPublicIp aws eniId) (\<lambda>taskPublicIp.
       bind_io (console_log ''Fetched taskPublicIp ${taskPublicIp}'' [taskPublicIp]) (\<lambda>_.
       pure_io (Inr (Some taskPublicIp)))))
     else if truthy containerInstanceArn
     then
       bind_io (console_log ''Fetched containerInstanceArn ${containerInstanceArn}''
                  [containerInstanceArn]) (\<lambda>_.
       bind_io (fetchContainerPublicIp aws
                  (JObj [(''containerInstances'', JArr [containerInstanceArn]),
                         (''cluster'', clusterArn)])) (\<lambda>taskPublicIp.
       bind_io (console_log ''Fetched taskPublicIp ${taskPublicIp}'' [taskPublicIp]) (\<lambda>_.
       pure_io (Inr (Some taskPublicIp)))))
     else
       bind_io (console_log ''Could not fetch public IP for this task'' []) (\<lambda>_.
       pure_io (Inr None))))"

text \<open>Lines 57 to 64: the service name, the record set and the update.\<close>

definition upsert_task_record ::
  "cloud \<Rightarrow> jsval \<Rightarrow> jsval \<Rightarrow> jsval \<Rightarrow> jsval \<Rightarrow> jsval \<Rightarrow> unit io" where
  "upsert_task_record aws task clusterName domain hostedZoneId taskPublicIp =
     bind_io (pure_io (bind_exn (get_prop task ''group'') (\<lambda>g.
                bind_exn (js_split g '':'') (\<lambda>parts.
                get_index parts 1)))) (\<lambda>serviceName.
     bind_io (console_log ''task:${serviceName} public-id: ${taskPublicIp}''
                [serviceName, taskPublicIp]) (\<lambda>_.
     let recordSet = createRecordSet domain taskPublicIp in
     bind_io (updateDnsRecord aws clusterName hostedZoneId recordSet) (\<lambda>_.
     console_log ''DNS record update finished for ${domain} (${taskPublicIp})''
       [domain, taskPublicIp])))"

text \<open>
  Lines 25 to 35: what the handler does with the tags it fetched, up to the choice
  between skipping and publishing.
\<close>

definition publish_for_tags :: "cloud \<Rightarrow> jsval \<Rightarrow> jsval \<Rightarrow> jsval \<Rightarrow> hash \<Rightarrow> unit io" where
  "publish_for_tags aws task clusterArn clusterName tags =
     (let domain = hash_get tags ''domain'';
          hostedZoneId = hash_get tags ''hostedZoneId''
      in
      bind_io (console_log
                 ''cluster: ${clusterName}, domain: ${domain}, hostedZone: ${hostedZoneId}''
                 [clusterName, domain, hostedZoneId]) (\<lambda>_.
      if \<not> truthy domain \<or> \<not> truthy hostedZoneId
      then console_log
             ''Skipping. Reason: no \"domain\" and/or \"hostedZoneId\" tags found for cluster ${clusterArn}''
             [clusterArn]
      else
        bind_io (resolve_public_ip aws task clusterArn) (\<lambda>resolved.
        case resolved of
          None \<Rightarrow> pure_io (Inr ())
        | Some taskPublicIp \<Rightarrow>
            upsert_task_record aws task clusterName domain hostedZoneId taskPublicIp)))"

text \<open>Lines 14 to 24, and the whole.\<close>

definition handler :: "cloud \<Rightarrow> jsval \<Rightarrow> unit io" where
  "handler aws event =
     bind_io (console_log ''Received event: %j'' [event]) (\<lambda>_.
     bind_io (pure_io (get_prop event ''detail'')) (\<lambda>task.
     bind_io (pure_io (get_prop task ''clusterArn'')) (\<lambda>clusterArn.
     bind_io (pure_io (get_prop task ''taskArn'')) (\<lambda>taskArn.
     bind_io (console_log ''clusterArn: ${clusterArn}, taskArn : ${taskArn}''
                [clusterArn, taskArn]) (\<lambda>_.
     bind_io (pure_io (bind_exn (js_split clusterArn '':cluster/'') (\<lambda>parts.
                get_index parts 1))) (\<lambda>clusterName.
     bind_io (fetchTags aws taskArn) (\<lambda>tags.
     publish_for_tags aws task clusterArn clusterName tags)))))))"

section \<open>Notions used to state the properties\<close>

text \<open>A value whose properties can be read: neither \<^verbatim>\<open>undefined\<close> nor \<^verbatim>\<open>null\<close>.\<close>

definition present :: "jsval \<Rightarrow> bool" where
  "present v = (v \<noteq> JUndefined \<and> v \<noteq> JNull)"

text \<open>The requests an invocation sent, in order.\<close>

fun requests :: "effect list \<Rightarrow> api_call list" where
  "requests [] = []"
| "requests (Send c # es) = c # requests es"
| "requests (e # es) = requests es"

text \<open>
  What the description of \<^verbatim>\<open>getEniId\<close> says, written without the lodash chain: the
  value of the first detail named \<^verbatim>\<open>networkInterfaceId\<close> of the first attachment of
  type \<^verbatim>\<open>eni\<close>, and \<^verbatim>\<open>undefined\<close> where there is no such attachment or no such
  detail in it.
\<close>

definition first_named_value :: "jsval list \<Rightarrow> jsval" where
  "first_named_value details =
     (case find (\<lambda>d. get_prop d ''name'' = Inr (JStr ''networkInterfaceId'')) details of
        None \<Rightarrow> JUndefined
      | Some d \<Rightarrow> (case get_prop d ''value'' of Inl e \<Rightarrow> JUndefined | Inr v \<Rightarrow> v))"

definition first_eni_id :: "jsval list \<Rightarrow> jsval" where
  "first_eni_id attachments =
     (case find (\<lambda>a. get_prop a ''type'' = Inr (JStr ''eni'')) attachments of
        None \<Rightarrow> JUndefined
      | Some a \<Rightarrow>
          (case get_prop a ''details'' of
             Inl e \<Rightarrow> JUndefined
           | Inr ds \<Rightarrow> first_named_value (collection ds)))"

text \<open>
  A task whose attachments can all be inspected: the task and every attachment are
  present, and so is every detail of every attachment of type \<^verbatim>\<open>eni\<close>.
\<close>

definition readable_attachments :: "jsval \<Rightarrow> bool" where
  "readable_attachments task =
     (case get_prop task ''attachments'' of
        Inl e \<Rightarrow> False
      | Inr atts \<Rightarrow>
          list_all (\<lambda>a. present a \<and>
             (get_prop a ''type'' = Inr (JStr ''eni'') \<longrightarrow>
                (case get_prop a ''details'' of
                   Inl e \<Rightarrow> False
                 | Inr ds \<Rightarrow> list_all present (collection ds))))
            (collection atts))"

text \<open>
  The remote events of an invocation (everything but the log lines), and the events of
  a list of calls made strictly one after the other: each request is followed at once by
  the settling of its own promise.
\<close>

fun remote :: "effect list \<Rightarrow> effect list" where
  "remote [] = []"
| "remote (ConsoleLog t a # es) = remote es"
| "remote (e # es) = e # remote es"

fun exchanges :: "cloud \<Rightarrow> api_call list \<Rightarrow> effect list" where
  "exchanges aws [] = []"
| "exchanges aws (c # cs) = Send c # Recv c (aws c) # exchanges aws cs"

text \<open>
  A computation is orderly when its remote events are such a sequence and a rejected
  call ends it: the rejection is what the computation throws and nothing happens after.
\<close>

definition orderly :: "cloud \<Rightarrow> 'a io \<Rightarrow> bool" where
  "orderly aws m \<longleftrightarrow>
     remote (snd m) = exchanges aws (requests (snd m)) \<and>
     (\<forall>c e. c \<in> set (requests (snd m)) \<longrightarrow> aws c = Inl e \<longrightarrow>
        fst m = Inl e \<and> (\<exists>pre. snd m = pre @ [Send c, Recv c (Inl e)]))"

fun operation :: "api_call \<Rightarrow> string" where
  "operation (ListTagsForResource p) = ''listTagsForResource''"
| "operation (DescribeNetworkInterfaces p) = ''describeNetworkInterfaces''"
| "operation (DescribeContainerInstances p) = ''describeContainerInstances''"
| "operation (DescribeInstances p) = ''describeInstances''"
| "operation (ChangeResourceRecordSets p) = ''changeResourceRecordSets''"

text \<open>
  The parameter that \<^verbatim>\<open>updateDnsRecord\<close> builds around the record set of
  \<^verbatim>\<open>createRecordSet\<close>, written out.
\<close>

definition dns_param :: "jsval \<Rightarrow> jsval \<Rightarrow> jsval \<Rightarrow> jsval \<Rightarrow> jsval" where
  "dns_param clusterName hostedZoneId domain publicIp =
     JObj [(''ChangeBatch'',
            JObj [(''Comment'',
                   JStr (''Auto generated Record for ECS cluster '' @ to_string clusterName)),
                  (''Changes'',
                   JArr [JObj [(''Action'', JStr ''UPSERT''),
                               (''ResourceRecordSet'',
                                JObj [(''Name'', domain),
                                      (''Type'', JStr ''A''),
                                      (''TTL'', JNum 180),
                                      (''ResourceRecords'', JArr [JObj [(''Value'', publicIp)]])])]])]),
           (''HostedZoneId'', hostedZoneId)]"

text \<open>\<^verbatim>\<open>param.ChangeBatch.Changes[0].ResourceRecordSet.Name\<close> of a request parameter.\<close>

definition record_set_name :: "jsval \<Rightarrow> exn + jsval" where
  "record_set_name param =
     bind_exn (get_prop param ''ChangeBatch'') (\<lambda>batch.
     bind_exn (get_prop batch ''Changes'') (\<lambda>changes.
     bind_exn (get_index changes 0) (\<lambda>change.
     bind_exn (get_prop change ''ResourceRecordSet'') (\<lambda>recordSet.
     get_prop recordSet ''Name''))))"

text \<open>
  The values that lines 17 to 22 compute before the first remote call (the task, the
  cluster ARN, the task ARN and the cluster name), or what they throw.
\<close>

definition preamble :: "jsval \<Rightarrow> exn + jsval \<times> jsval \<times> jsval \<times> jsval" where
  "preamble event =
     bind_exn (get_prop event ''detail'') (\<lambda>task.
     bind_exn (get_prop task ''clusterArn'') (\<lambda>clusterArn.
     bind_exn (get_prop task ''taskArn'') (\<lambda>taskArn.
     bind_exn (js_split clusterArn '':cluster/'') (\<lambda>parts.
     bind_exn (get_index parts 1) (\<lambda>clusterName.
     Inr (task, clusterArn, taskArn, clusterName))))))"

text \<open>The value of line 57, \<^verbatim>\<open>task.group.split(":")[1]\<close>, or what it throws.\<close>

definition service_name :: "jsval \<Rightarrow> exn + jsval" where
  "service_name task =
     bind_exn (get_prop task ''group'') (\<lambda>g.
     bind_exn (js_split g '':'') (\<lambda>parts.
     get_index parts 1))"

text \<open>The property name and the value that \<^verbatim>\<open>fetchTags\<close> takes from a tag.\<close>

definition tag_key :: "jsval \<Rightarrow> string" where
  "tag_key tag = (case get_prop tag ''key'' of Inl e \<Rightarrow> [] | Inr k \<Rightarrow> to_string k)"

definition tag_value :: "jsval \<Rightarrow> jsval" where
  "tag_value tag = (case get_prop tag ''value'' of Inl e \<Rightarrow> JUndefined | Inr v \<Rightarrow> v)"

text \<open>
  The tags of a reply, as the description of the DNS request speaks of them. A value is
  inert when assigning it to \<^verbatim>\<open>__proto__\<close> changes nothing (it is neither an object
  nor \<^verbatim>\<open>null\<close>; the service sends strings). A list of tags is well formed when
  every tag named \<^verbatim>\<open>__proto__\<close> has an inert value. The fetched tag value for a key
  is the value of the last tag of that key, \<^verbatim>\<open>undefined\<close> without one.
\<close>

fun inert :: "jsval \<Rightarrow> bool" where
  "inert (JObj kvs) = False"
| "inert (JArr xs) = False"
| "inert JNull = False"
| "inert v = True"

definition well_formed_tags :: "jsval list \<Rightarrow> bool" where
  "well_formed_tags ts =
     list_all (\<lambda>t. tag_key t = ''__proto__'' \<longrightarrow> inert (tag_value t)) ts"

definition last_tag_value :: "jsval list \<Rightarrow> string \<Rightarrow> jsval" where
  "last_tag_value ts k =
     (case find (\<lambda>t. tag_key t = k) (rev ts) of
        None \<Rightarrow> JUndefined
      | Some t \<Rightarrow> tag_value t)"

text \<open>
  Where the replies of the three lookups hold what the program is after:
  \<^verbatim>\<open>data.NetworkInterfaces[0].PrivateIpAddresses[0].Association.PublicIp\<close>,
  \<^verbatim>\<open>data.containerInstances[0].ec2InstanceId\<close> and
  \<^verbatim>\<open>data.Reservations[0].Instances[0].PublicIpAddress\<close>.
\<close>

definition interface_public_ip :: "jsval \<Rightarrow> exn + jsval" where
  "interface_public_ip data =
     bind_exn (get_prop data ''NetworkInterfaces'') (\<lambda>ns.
     bind_exn (get_index ns 0) (\<lambda>n.
     bind_exn (get_prop n ''PrivateIpAddresses'') (\<lambda>ps.
     bind_exn (get_index ps 0) (\<lambda>p.
     bind_exn (get_prop p ''Association'') (\<lambda>a.
     get_prop a ''PublicIp'')))))"

definition ec2_instance_id :: "jsval \<Rightarrow> exn + jsval" where
  "ec2_instance_id data =
     bind_exn (get_prop data ''containerInstances'') (\<lambda>cs.
     bind_exn (get_index cs 0) (\<lambda>c.
     get_prop c ''ec2InstanceId''))"

definition instance_public_ip :: "jsval \<Rightarrow> exn + jsval" where
  "instance_public_ip data =
     bind_exn (get_prop data ''Reservations'') (\<lambda>rs.
     bind_exn (get_index rs 0) (\<lambda>r.
     bind_exn (get_prop r ''Instances'') (\<lambda>is.
     bind_exn (get_index is 0) (\<lambda>i.
     get_prop i ''PublicIpAddress''))))"

section \<open>Example inputs\<close>

definition example_attachments :: jsval where
  "example_attachments =
     JArr [JObj [(''type'', JStr ''elb''),
                 (''details'', JArr [JObj [(''name'', JStr ''networkInterfaceId''),
                                           (''value'', JStr ''eni-0'')]])],
           JObj [(''type'', JStr ''eni''),
                 (''details'', JArr [JObj [(''name'', JStr ''subnetId''),
                                           (''value'', JStr ''subnet-1'')],
                                     JObj [(''name'', JStr ''networkInterfaceId''),
                                           (''value'', JStr ''eni-1'')],
                                     JObj [(''name'', JStr ''networkInterfaceId''),
                                           (''value'', JStr ''eni-2'')]])],
           JObj [(''type'', JStr ''eni''),
                 (''details'', JArr [JObj [(''name'', JStr ''networkInterfaceId''),
                                           (''value'', JStr ''eni-3'')]])]]"

text \<open>Attachments whose first \<^verbatim>\<open>eni\<close> entry has no interface id, while a later one has.\<close>

definition later_eni_attachments :: jsval where
  "later_eni_attachments =
     JArr [JObj [(''type'', JStr ''eni''),
                 (''details'', JArr [JObj [(''name'', JStr ''subnetId''),
                                           (''value'', JStr ''subnet-1'')]])],
           JObj [(''type'', JStr ''eni''),
                 (''details'', JArr [JObj [(''name'', JStr ''networkInterfaceId''),
                                           (''value'', JStr ''eni-3'')]])]]"

text \<open>A Fargate task of service \<^verbatim>\<open>shop\<close> in cluster \<^verbatim>\<open>web\<close>, and services that answer.\<close>

definition fargate_task :: jsval where
  "fargate_task =
     JObj [(''clusterArn'', JStr ''arn:aws:ecs:eu-west-1:1:cluster/web''),
           (''taskArn'', JStr ''arn:aws:ecs:eu-west-1:1:task/7''),
           (''group'', JStr ''service:shop''),
           (''attachments'', example_attachments)]"

definition fargate_event :: jsval where
  "fargate_event = JObj [(''detail'', fargate_task)]"

text \<open>The tag map that \<^verbatim>\<open>fetchTags\<close> builds from the reply below.\<close>

definition shop_tags :: hash where
  "shop_tags =
     \<lparr>props = [''domain'' \<mapsto> JStr ''shop.example.org'', ''hostedZoneId'' \<mapsto> JStr ''Z1''],
      parent = ObjectPrototype\<rparr>"

definition shop_tag_list :: jsval where
  "shop_tag_list =
     JArr [JObj [(''key'', JStr ''domain''), (''value'', JStr ''shop.example.org'')],
           JObj [(''key'', JStr ''hostedZoneId''), (''value'', JStr ''Z1'')]]"

definition tags_reply :: jsval where
  "tags_reply = JObj [(''tags'', shop_tag_list)]"

definition interfaces_reply :: jsval where
  "interfaces_reply =
     JObj [(''NetworkInterfaces'',
            JArr [JObj [(''PrivateIpAddresses'',
                         JArr [JObj [(''Association'',
                                      JObj [(''PublicIp'', JStr ''198.51.100.7'')])]])]])]"

fun fargate_cloud :: cloud where
  "fargate_cloud (ListTagsForResource p) = Inr tags_reply"
| "fargate_cloud (DescribeNetworkInterfaces p) = Inr interfaces_reply"
| "fargate_cloud c = Inr (JObj [])"

text \<open>The same services when every call after the tag lookup is throttled.\<close>

fun failing_cloud :: cloud where
  "failing_cloud (ListTagsForResource p) = Inr tags_reply"
| "failing_cloud c = Inl (ServiceError (JStr ''ThrottlingException''))"

definition fargate_dns_param :: jsval where
  "fargate_dns_param =
     JObj [(''ChangeBatch'',
            JObj [(''Comment'', JStr ''Auto generated Record for ECS cluster web''),
                  (''Changes'',
                   JArr [JObj [(''Action'', JStr ''UPSERT''),
                               (''ResourceRecordSet'',
                                JObj [(''Name'', JStr ''shop.example.org''),
                                      (''Type'', JStr ''A''),
                                      (''TTL'', JNum 180),
                                      (''ResourceRecords'',
                                       JArr [JObj [(''Value'', JStr ''198.51.100.7'')]])])]])]),
           (''HostedZoneId'', JStr ''Z1'')]"

text \<open>A reply in which the \<^verbatim>\<open>domain\<close> tag is empty.\<close>

definition untagged_reply :: jsval where
  "untagged_reply =
     JObj [(''tags'', JArr [JObj [(''key'', JStr ''hostedZoneId''), (''value'', JStr ''Z1'')],
                            JObj [(''key'', JStr ''domain''), (''value'', JStr [])]])]"

definition untagged :: hash where
  "untagged =
     \<lparr>props = [''hostedZoneId'' \<mapsto> JStr ''Z1'', ''domain'' \<mapsto> JStr []],
      parent = ObjectPrototype\<rparr>"

text \<open>
  A task of the EC2 launch type on a container instance whose EC2 instance has no public
  address. The DNS client rejects a change whose record has no value.
\<close>

definition ec2_task :: jsval where
  "ec2_task =
     JObj [(''clusterArn'', JStr ''arn:aws:ecs:eu-west-1:1:cluster/web''),
           (''taskArn'', JStr ''arn:aws:ecs:eu-west-1:1:task/8''),
           (''group'', JStr ''service:shop''),
           (''containerInstanceArn'', JStr ''arn:aws:ecs:eu-west-1:1:container-instance/c1''),
           (''attachments'', JArr [])]"

definition ec2_event :: jsval where
  "ec2_event = JObj [(''detail'', ec2_task)]"

definition container_params :: jsval where
  "container_params =
     JObj [(''containerInstances'',
            JArr [JStr ''arn:aws:ecs:eu-west-1:1:container-instance/c1'']),
           (''cluster'', JStr ''arn:aws:ecs:eu-west-1:1:cluster/web'')]"

definition containers_reply :: jsval where
  "containers_reply =
     JObj [(''containerInstances'', JArr [JObj [(''ec2InstanceId'', JStr ''i-1'')]])]"

definition instances_reply :: jsval where
  "instances_reply =
     JObj [(''Reservations'',
            JArr [JObj [(''Instances'', JArr [JObj [(''InstanceId'', JStr ''i-1'')]])]])]"

fun private_cloud :: cloud where
  "private_cloud (ListTagsForResource p) = Inr tags_reply"
| "private_cloud (DescribeContainerInstances p) = Inr containers_reply"
| "private_cloud (DescribeInstances p) = Inr instances_reply"
| "private_cloud (ChangeResourceRecordSets p) =
     Inl (ServiceError (JStr ''MissingRequiredParameter''))"
| "private_cloud c = Inr (JObj [])"

text \<open>The same task when the instance has a public address and the DNS client accepts.\<close>

definition public_instances_reply :: jsval where
  "public_instances_reply =
     JObj [(''Reservations'',
            JArr [JObj [(''Instances'',
                        JArr [JObj [(''InstanceId'', JStr ''i-1''),
                                    (''PublicIpAddress'', JStr ''203.0.113.9'')]])]])]"

fun ec2_cloud :: cloud where
  "ec2_cloud (ListTagsForResource p) = Inr tags_reply"
| "ec2_cloud (DescribeContainerInstances p) = Inr containers_reply"
| "ec2_cloud (DescribeInstances p) = Inr public_instances_reply"
| "ec2_cloud c = Inr (JObj [])"

text \<open>A task with neither a network interface nor a container instance.\<close>

definition bare_task :: jsval where
  "bare_task =
     JObj [(''clusterArn'', JStr ''arn:aws:ecs:eu-west-1:1:cluster/web''),
           (''taskArn'', JStr ''arn:aws:ecs:eu-west-1:1:task/9''),
           (''group'', JStr ''service:shop''),
           (''attachments'', JArr [])]"

definition bare_event :: jsval where
  "bare_event = JObj [(''detail'', bare_task)]"

text \<open>A reply with a tag whose key is \<^verbatim>\<open>__proto__\<close>.\<close>

definition proto_reply :: jsval where
  "proto_reply =
     JObj [(''tags'', JArr [JObj [(''key'', JStr ''__proto__''), (''value'', JStr ''x'')]])]"

text \<open>The Fargate event without a cluster ARN, and without a group.\<close>

definition no_cluster_event :: jsval where
  "no_cluster_event =
     JObj [(''detail'',
            JObj [(''taskArn'', JStr ''arn:aws:ecs:eu-west-1:1:task/7''),
                  (''group'', JStr ''service:shop''),
                  (''attachments'', example_attachments)])]"

definition no_group_task :: jsval where
  "no_group_task =
     JObj [(''clusterArn'', JStr ''arn:aws:ecs:eu-west-1:1:cluster/web''),
           (''taskArn'', JStr ''arn:aws:ecs:eu-west-1:1:task/7''),
           (''attachments'', example_attachments)]"

definition no_group_event :: jsval where
  "no_group_event = JObj [(''detail'', no_group_task)]"

section \<open>Basic facts\<close>

lemma bind_exn_simps [simp]:
  "bind_exn (Inl e) f = Inl e"
  "bind_exn (Inr x) f = f x"
  by (simp_all add: bind_exn_def)

lemma bind_io_simps [simp]:
  "bind_io (Inl e, es) f = (Inl e, es)"
  "bind_io (Inr x, es) f = (fst (f x), es @ snd (f x))"
  by (simp_all add: bind_io_def split: prod.splits)

lemma bind_exn_Inr_iff: "bind_exn m f = Inr y \<longleftrightarrow> (\<exists>x. m = Inr x \<and> f x = Inr y)"
  by (cases m) simp_all

lemma get_prop_present: "present v \<Longrightarrow> \<exists>x. get_prop v k = Inr x"
  by (cases v) (simp_all add: present_def)

lemma filter_exn_Inr:
  "filter_exn p xs = Inr ys \<Longrightarrow> ys = filter (\<lambda>x. p x = Inr True) xs"
  by (induction xs arbitrary: ys) (auto simp: bind_exn_Inr_iff split: if_splits)

lemma filter_exn_total:
  "\<forall>x\<in>set xs. \<exists>b. p x = Inr b \<Longrightarrow> filter_exn p xs = Inr (filter (\<lambda>x. p x = Inr True) xs)"
  by (induction xs) auto

lemma map_exn_total:
  "\<forall>x\<in>set xs. \<exists>y. f x = Inr y \<Longrightarrow> \<exists>ys. map_exn f xs = Inr ys"
  by (induction xs) auto

lemma filter_Cons_find: "filter P xs = a # as \<Longrightarrow> find P xs = Some a"
  by (induction xs) (auto split: if_splits)

lemma filter_Nil_find: "filter P xs = [] \<Longrightarrow> find P xs = None"
  by (induction xs) (auto split: if_splits)

lemma head_map_exn:
  assumes "map_exn f xs = Inr ys"
  shows "(xs = [] \<and> head ys = JUndefined) \<or> (\<exists>x xs'. xs = x # xs' \<and> f x = Inr (head ys))"
  using assms by (cases xs) (auto simp: bind_exn_Inr_iff)

section \<open>getEniId\<close>

lemma eni_attachment_id_Inr:
  assumes "eni_attachment_id a = Inr i"
  shows "\<exists>ds. get_prop a ''details'' = Inr ds \<and> i = first_named_value (collection ds)"
proof -
  let ?p = "\<lambda>d. bind_exn (get_prop d ''name'') (\<lambda>n. Inr (n = JStr ''networkInterfaceId''))"
  let ?P = "\<lambda>d. get_prop d ''name'' = Inr (JStr ''networkInterfaceId'')"
  from assms obtain ds named vals where
    ds: "get_prop a ''details'' = Inr ds" and
    named: "filter_exn ?p (collection ds) = Inr named" and
    vals: "map_exn (\<lambda>d. get_prop d ''value'') named = Inr vals" and
    i: "i = head vals"
    by (auto simp: eni_attachment_id_def bind_exn_Inr_iff)
  have "(\<lambda>d. ?p d = Inr True) = ?P"
    by (auto simp: fun_eq_iff bind_exn_Inr_iff)
  with filter_exn_Inr [OF named] have named_eq: "named = filter ?P (collection ds)"
    by simp
  from head_map_exn [OF vals] have "i = first_named_value (collection ds)"
  proof
    assume "named = [] \<and> head vals = JUndefined"
    with named_eq i show ?thesis
      by (simp add: first_named_value_def filter_Nil_find [of ?P])
  next
    assume "\<exists>x xs'. named = x # xs' \<and> get_prop x ''value'' = Inr (head vals)"
    then obtain x xs' where "named = x # xs'" "get_prop x ''value'' = Inr (head vals)"
      by blast
    with named_eq i show ?thesis
      by (simp add: first_named_value_def filter_Cons_find [of ?P "collection ds" x xs'])
  qed
  with ds show ?thesis by blast
qed

lemma getEniId_Inr:
  assumes "getEniId task = Inr v"
  shows "\<exists>atts. get_prop task ''attachments'' = Inr atts \<and> v = first_eni_id (collection atts)"
proof -
  let ?p = "\<lambda>a. bind_exn (get_prop a ''type'') (\<lambda>t. Inr (t = JStr ''eni''))"
  let ?P = "\<lambda>a. get_prop a ''type'' = Inr (JStr ''eni'')"
  from assms obtain atts enis ids where
    atts: "get_prop task ''attachments'' = Inr atts" and
    enis: "filter_exn ?p (collection atts) = Inr enis" and
    ids: "map_exn eni_attachment_id enis = Inr ids" and
    v: "v = head ids"
    by (auto simp: getEniId_def bind_exn_Inr_iff)
  have "(\<lambda>a. ?p a = Inr True) = ?P"
    by (auto simp: fun_eq_iff bind_exn_Inr_iff)
  with filter_exn_Inr [OF enis] have enis_eq: "enis = filter ?P (collection atts)"
    by simp
  from head_map_exn [OF ids] have "v = first_eni_id (collection atts)"
  proof
    assume "enis = [] \<and> head ids = JUndefined"
    with enis_eq v show ?thesis
      by (simp add: first_eni_id_def filter_Nil_find [of ?P])
  next
    assume "\<exists>x xs'. enis = x # xs' \<and> eni_attachment_id x = Inr (head ids)"
    then obtain x xs' where x: "enis = x # xs'" "eni_attachment_id x = Inr (head ids)"
      by blast
    from eni_attachment_id_Inr [OF x(2)] obtain ds where
      "get_prop x ''details'' = Inr ds" "head ids = first_named_value (collection ds)"
      by blast
    with enis_eq v x(1) show ?thesis
      by (simp add: first_eni_id_def filter_Cons_find [of ?P "collection atts" x xs'])
  qed
  with atts show ?thesis by blast
qed

lemma eni_attachment_id_total:
  assumes "get_prop a ''details'' = Inr ds" and "list_all present (collection ds)"
  shows "\<exists>i. eni_attachment_id a = Inr i"
proof -
  let ?p = "\<lambda>d. bind_exn (get_prop d ''name'') (\<lambda>n. Inr (n = JStr ''networkInterfaceId''))"
  have readable: "\<exists>y. get_prop d k = Inr y" if "d \<in> set (collection ds)" for d k
    using that assms(2) get_prop_present by (auto simp: list_all_iff)
  have "\<forall>d\<in>set (collection ds). \<exists>b. ?p d = Inr b"
    using readable by (fastforce simp: bind_exn_Inr_iff)
  from filter_exn_total [OF this] have
    named: "filter_exn ?p (collection ds) = Inr (filter (\<lambda>d. ?p d = Inr True) (collection ds))" .
  have "\<forall>d\<in>set (filter (\<lambda>d. ?p d = Inr True) (collection ds)). \<exists>y. get_prop d ''value'' = Inr y"
    using readable by simp
  from map_exn_total [OF this] obtain vals where
    "map_exn (\<lambda>d. get_prop d ''value'') (filter (\<lambda>d. ?p d = Inr True) (collection ds)) = Inr vals"
    by blast
  with assms(1) named show ?thesis
    by (simp add: eni_attachment_id_def)
qed

lemma getEniId_total:
  assumes "readable_attachments task"
  shows "\<exists>v. getEniId task = Inr v"
proof -
  let ?p = "\<lambda>a. bind_exn (get_prop a ''type'') (\<lambda>t. Inr (t = JStr ''eni''))"
  from assms obtain atts where
    atts: "get_prop task ''attachments'' = Inr atts" and
    every: "list_all (\<lambda>a. present a \<and>
             (get_prop a ''type'' = Inr (JStr ''eni'') \<longrightarrow>
                (case get_prop a ''details'' of
                   Inl e \<Rightarrow> False
                 | Inr ds \<Rightarrow> list_all present (collection ds))))
            (collection atts)"
    by (cases "get_prop task ''attachments''") (simp_all add: readable_attachments_def)
  have each: "\<forall>a\<in>set (collection atts). present a \<and>
             (get_prop a ''type'' = Inr (JStr ''eni'') \<longrightarrow>
                (\<exists>ds. get_prop a ''details'' = Inr ds \<and> list_all present (collection ds)))"
  proof
    fix a assume "a \<in> set (collection atts)"
    with every have "present a \<and>
             (get_prop a ''type'' = Inr (JStr ''eni'') \<longrightarrow>
                (case get_prop a ''details'' of
                   Inl e \<Rightarrow> False
                 | Inr ds \<Rightarrow> list_all present (collection ds)))"
      by (simp add: list_all_iff)
    then show "present a \<and>
             (get_prop a ''type'' = Inr (JStr ''eni'') \<longrightarrow>
                (\<exists>ds. get_prop a ''details'' = Inr ds \<and> list_all present (collection ds)))"
      by (cases "get_prop a ''details''") simp_all
  qed
  have "\<forall>a\<in>set (collection atts). \<exists>b. ?p a = Inr b"
    using each get_prop_present by (fastforce simp: bind_exn_Inr_iff)
  from filter_exn_total [OF this] have
    enis: "filter_exn ?p (collection atts) = Inr (filter (\<lambda>x. ?p x = Inr True) (collection atts))" .
  let ?enis = "filter (\<lambda>x. ?p x = Inr True) (collection atts)"
  have "\<forall>a\<in>set ?enis. \<exists>i. eni_attachment_id a = Inr i"
  proof
    fix a assume "a \<in> set ?enis"
    then have "a \<in> set (collection atts)" "get_prop a ''type'' = Inr (JStr ''eni'')"
      by (auto simp: bind_exn_Inr_iff)
    with each obtain ds where "get_prop a ''details'' = Inr ds" "list_all present (collection ds)"
      by blast
    then show "\<exists>i. eni_attachment_id a = Inr i"
      by (rule eni_attachment_id_total)
  qed
  from map_exn_total [OF this] obtain ids where "map_exn eni_attachment_id ?enis = Inr ids"
    by blast
  with atts enis show ?thesis
    by (simp add: getEniId_def)
qed

text \<open>
  Claim C8. Whenever \<^verbatim>\<open>getEniId\<close> returns, it returns the value of the first detail
  named \<^verbatim>\<open>networkInterfaceId\<close> of the first attachment of type \<^verbatim>\<open>eni\<close>, and
  \<^verbatim>\<open>undefined\<close> when there is no attachment of that type or when the first one has no
  such detail, whatever later attachments hold; and it does return on every task whose
  attachments and their details can be inspected.
\<close>

theorem getEniId_first_eni:
  "(readable_attachments task \<longrightarrow> (\<exists>v. getEniId task = Inr v)) \<and>
   (\<forall>v. getEniId task = Inr v \<longrightarrow>
      (\<exists>atts. get_prop task ''attachments'' = Inr atts \<and> v = first_eni_id (collection atts)))"
  using getEniId_total getEniId_Inr by blast

theorem getEniId_first_eni_witness:
  "readable_attachments (JObj [(''attachments'', example_attachments)]) \<and>
   getEniId (JObj [(''attachments'', example_attachments)]) = Inr (JStr ''eni-1'') \<and>
   first_eni_id (collection example_attachments) = JStr ''eni-1'' \<and>
   readable_attachments (JObj [(''attachments'', later_eni_attachments)]) \<and>
   getEniId (JObj [(''attachments'', later_eni_attachments)]) = Inr JUndefined"
  using getEniId_first_eni [of "JObj [(''attachments'', example_attachments)]"]
    getEniId_first_eni [of "JObj [(''attachments'', later_eni_attachments)]"]
  by (simp add: readable_attachments_def example_attachments_def later_eni_attachments_def
        present_def getEniId_def eni_attachment_id_def first_eni_id_def first_named_value_def)

section \<open>Effects of a sequence of steps\<close>

lemma fst_bind_io: "fst (bind_io m f) = (case fst m of Inl e \<Rightarrow> Inl e | Inr x \<Rightarrow> fst (f x))"
  by (cases m) (auto simp: bind_io_def split: sum.splits prod.splits)

lemma snd_bind_io: "snd (bind_io m f) = snd m @ (case fst m of Inl e \<Rightarrow> [] | Inr x \<Rightarrow> snd (f x))"
  by (cases m) (auto simp: bind_io_def split: sum.splits prod.splits)

lemma bind_io_Inl: "fst m = Inl e \<Longrightarrow> fst (bind_io m f) = Inl e \<and> snd (bind_io m f) = snd m"
  by (simp add: fst_bind_io snd_bind_io)

lemma bind_io_Inr:
  "fst m = Inr x \<Longrightarrow> fst (bind_io m f) = fst (f x) \<and> snd (bind_io m f) = snd m @ snd (f x)"
  by (simp add: fst_bind_io snd_bind_io)

lemma fst_snd_prims [simp]:
  "fst (pure_io r) = r" "snd (pure_io r) = []"
  "fst (console_log t a) = Inr ()" "snd (console_log t a) = [ConsoleLog t a]"
  "fst (await aws c) = aws c" "snd (await aws c) = [Send c, Recv c (aws c)]"
  by (simp_all add: pure_io_def console_log_def await_def)

lemma requests_append [simp]: "requests (es @ es') = requests es @ requests es'"
  by (induction es rule: requests.induct) simp_all

lemma remote_append [simp]: "remote (es @ es') = remote es @ remote es'"
  by (induction es rule: remote.induct) simp_all

lemma exchanges_append [simp]: "exchanges aws (cs @ cs') = exchanges aws cs @ exchanges aws cs'"
  by (induction cs) simp_all

lemma Send_requests: "Send c \<in> set es \<longleftrightarrow> c \<in> set (requests es)"
  by (induction es rule: requests.induct) auto

lemma orderly_bind:
  assumes "orderly aws m" and "\<And>x. fst m = Inr x \<Longrightarrow> orderly aws (f x)"
  shows "orderly aws (bind_io m f)"
proof (cases "fst m")
  case (Inl e)
  with assms(1) bind_io_Inl [OF Inl, of f] show ?thesis
    by (simp add: orderly_def)
next
  case (Inr x)
  from assms(2) [OF Inr] have fx: "orderly aws (f x)" .
  have s: "snd (bind_io m f) = snd m @ snd (f x)" and r: "fst (bind_io m f) = fst (f x)"
    using bind_io_Inr [OF Inr, of f] by simp_all
  have calls_m: "\<forall>c\<in>set (requests (snd m)). \<forall>e. aws c \<noteq> Inl e"
    using assms(1) Inr by (auto simp: orderly_def)
  show ?thesis
    unfolding orderly_def s r
  proof (intro conjI allI impI)
    show "remote (snd m @ snd (f x)) = exchanges aws (requests (snd m @ snd (f x)))"
      using assms(1) fx by (simp add: orderly_def)
  next
    fix c e assume c: "c \<in> set (requests (snd m @ snd (f x)))" and e: "aws c = Inl e"
    with calls_m have "c \<in> set (requests (snd (f x)))" by auto
    with fx e show "fst (f x) = Inl e" by (simp add: orderly_def)
  next
    fix c e assume c: "c \<in> set (requests (snd m @ snd (f x)))" and e: "aws c = Inl e"
    with calls_m have "c \<in> set (requests (snd (f x)))" by auto
    with fx e obtain pre where "snd (f x) = pre @ [Send c, Recv c (Inl e)]"
      by (auto simp: orderly_def)
    then have "snd m @ snd (f x) = (snd m @ pre) @ [Send c, Recv c (Inl e)]" by simp
    then show "\<exists>pre. snd m @ snd (f x) = pre @ [Send c, Recv c (Inl e)]" by blast
  qed
qed

lemma orderly_pure [simp]: "orderly aws (pure_io r)"
  by (simp add: orderly_def)

lemma orderly_log [simp]: "orderly aws (console_log t a)"
  by (simp add: orderly_def)

lemma orderly_await [simp]: "orderly aws (await aws c)"
  by (simp add: orderly_def)

lemma orderly_fetchTags: "orderly aws (fetchTags aws arn)"
  unfolding fetchTags_def by (intro orderly_bind) simp_all

lemma orderly_fetchEniPublicIp: "orderly aws (fetchEniPublicIp aws eniId)"
  unfolding fetchEniPublicIp_def by (intro orderly_bind) simp_all

lemma orderly_fetchEC2PublicIp: "orderly aws (fetchEC2PublicIp aws i)"
  unfolding fetchEC2PublicIp_def by (intro orderly_bind) (simp_all add: orderly_bind)

lemma orderly_fetchContainerPublicIp: "orderly aws (fetchContainerPublicIp aws ps)"
  unfolding fetchContainerPublicIp_def
  by (intro orderly_bind) (simp_all add: orderly_bind orderly_fetchEC2PublicIp)

lemma orderly_updateDnsRecord: "orderly aws (updateDnsRecord aws n z r)"
  unfolding updateDnsRecord_def Let_def by (intro orderly_bind) simp_all

lemma orderly_resolve_public_ip: "orderly aws (resolve_public_ip aws task cl)"
  unfolding resolve_public_ip_def
  by (intro orderly_bind)
    (simp_all add: orderly_bind orderly_fetchEniPublicIp orderly_fetchContainerPublicIp)

lemma orderly_upsert_task_record: "orderly aws (upsert_task_record aws task n d z ip)"
  unfolding upsert_task_record_def Let_def
  by (intro orderly_bind) (simp_all add: orderly_updateDnsRecord)

lemma orderly_publish_for_tags: "orderly aws (publish_for_tags aws task cl n tags)"
  unfolding publish_for_tags_def Let_def
  by (intro orderly_bind)
    (simp_all add: orderly_bind orderly_resolve_public_ip orderly_upsert_task_record
       split: option.splits)

lemma orderly_handler: "orderly aws (handler aws event)"
  unfolding handler_def
  by (intro orderly_bind) (simp_all add: orderly_fetchTags orderly_publish_for_tags)

section \<open>The requests of each part of the program\<close>

lemma snd_fetchTags:
  "snd (fetchTags aws arn) =
     [Send (ListTagsForResource (JObj [(''resourceArn'', arn)])),
      Recv (ListTagsForResource (JObj [(''resourceArn'', arn)]))
        (aws (ListTagsForResource (JObj [(''resourceArn'', arn)])))]"
  by (simp add: fetchTags_def snd_bind_io split: sum.splits)

lemma fst_fetchTags:
  "fst (fetchTags aws arn) =
     bind_exn (aws (ListTagsForResource (JObj [(''resourceArn'', arn)]))) (\<lambda>response.
     bind_exn (get_prop response ''tags'') (\<lambda>tags.
     reduce_exn tag_step (collection tags) empty_hash))"
  by (simp add: fetchTags_def fst_bind_io bind_exn_def split: sum.splits)

lemma snd_fetchEniPublicIp:
  "snd (fetchEniPublicIp aws eniId) =
     [Send (DescribeNetworkInterfaces (JObj [(''NetworkInterfaceIds'', JArr [eniId])])),
      Recv (DescribeNetworkInterfaces (JObj [(''NetworkInterfaceIds'', JArr [eniId])]))
        (aws (DescribeNetworkInterfaces (JObj [(''NetworkInterfaceIds'', JArr [eniId])])))]"
  by (simp add: fetchEniPublicIp_def snd_bind_io split: sum.splits)

lemma requests_fetchEC2PublicIp:
  "requests (snd (fetchEC2PublicIp aws i)) =
     [DescribeInstances (JObj [(''InstanceIds'', JArr [i])])]"
  by (simp add: fetchEC2PublicIp_def snd_bind_io fst_bind_io split: sum.splits)

lemma requests_fetchContainerPublicIp:
  "requests (snd (fetchContainerPublicIp aws ps)) = [DescribeContainerInstances ps] \<or>
   (\<exists>i. requests (snd (fetchContainerPublicIp aws ps)) =
      [DescribeContainerInstances ps, DescribeInstances (JObj [(''InstanceIds'', JArr [i])])])"
  by (simp add: fetchContainerPublicIp_def snd_bind_io fst_bind_io requests_fetchEC2PublicIp
        split: sum.splits)

lemma requests_fetchContainerPublicIp_Inr:
  "fst (fetchContainerPublicIp aws ps) = Inr ip \<Longrightarrow>
   \<exists>i. requests (snd (fetchContainerPublicIp aws ps)) =
      [DescribeContainerInstances ps, DescribeInstances (JObj [(''InstanceIds'', JArr [i])])]"
  by (auto simp: fetchContainerPublicIp_def snd_bind_io fst_bind_io requests_fetchEC2PublicIp
        split: sum.splits if_splits)

lemma operations_resolve_public_ip:
  "map operation (requests (snd (resolve_public_ip aws task cl))) \<in>
     {[], [''describeNetworkInterfaces''], [''describeContainerInstances''],
      [''describeContainerInstances'', ''describeInstances'']}"
proof -
  have c: "map operation (requests (snd (fetchContainerPublicIp aws ps))) \<in>
     {[''describeContainerInstances''], [''describeContainerInstances'', ''describeInstances'']}"
    for ps
    using requests_fetchContainerPublicIp [of aws ps] by auto
  show ?thesis
    using c
    by (simp add: resolve_public_ip_def snd_bind_io fst_bind_io snd_fetchEniPublicIp
        split: sum.splits)
qed

lemma operations_resolve_public_ip_Some:
  "fst (resolve_public_ip aws task cl) = Inr (Some ip) \<Longrightarrow>
   map operation (requests (snd (resolve_public_ip aws task cl))) \<in>
     {[''describeNetworkInterfaces''], [''describeContainerInstances'', ''describeInstances'']}"
proof -
  have c: "fst (fetchContainerPublicIp aws ps) = Inr v \<Longrightarrow>
     map operation (requests (snd (fetchContainerPublicIp aws ps))) =
      [''describeContainerInstances'', ''describeInstances'']"
    for ps v
    using requests_fetchContainerPublicIp_Inr [of aws ps v] by auto
  assume "fst (resolve_public_ip aws task cl) = Inr (Some ip)"
  then show ?thesis
    by (auto simp: resolve_public_ip_def snd_bind_io fst_bind_io snd_fetchEniPublicIp c
        split: sum.splits if_splits)
qed

lemma requests_resolve_public_ip_None:
  "fst (resolve_public_ip aws task cl) = Inr None \<Longrightarrow>
   snd (resolve_public_ip aws task cl) = [ConsoleLog ''Could not fetch public IP for this task'' []]"
  by (auto simp: resolve_public_ip_def snd_bind_io fst_bind_io
        split: sum.splits if_splits)

lemma requests_updateDnsRecord:
  "requests (snd (updateDnsRecord aws n z (createRecordSet d ip))) =
     [ChangeResourceRecordSets (dns_param n z d ip)]"
  by (simp add: updateDnsRecord_def createRecordSet_def dns_param_def Let_def snd_bind_io
        split: sum.splits)

lemma requests_upsert_task_record:
  "requests (snd (upsert_task_record aws task n d z ip)) =
     (case service_name task of
        Inl e \<Rightarrow> []
      | Inr s \<Rightarrow> [ChangeResourceRecordSets (dns_param n z d ip)])"
  by (simp add: upsert_task_record_def service_name_def Let_def snd_bind_io fst_bind_io
        requests_updateDnsRecord split: sum.splits)

lemma requests_publish_for_tags:
  "requests (snd (publish_for_tags aws task cl n tags)) =
     (if \<not> truthy (hash_get tags ''domain'') \<or> \<not> truthy (hash_get tags ''hostedZoneId'') then []
      else requests (snd (resolve_public_ip aws task cl)) @
        (case fst (resolve_public_ip aws task cl) of
           Inr (Some ip) \<Rightarrow>
             requests (snd (upsert_task_record aws task n (hash_get tags ''domain'')
                (hash_get tags ''hostedZoneId'') ip))
         | _ \<Rightarrow> []))"
  by (simp add: publish_for_tags_def Let_def snd_bind_io fst_bind_io
        split: sum.splits option.splits)

lemma operations_publish_for_tags:
  "map operation (requests (snd (publish_for_tags aws task cl n tags))) \<in>
     {[],
      [''describeNetworkInterfaces''],
      [''describeNetworkInterfaces'', ''changeResourceRecordSets''],
      [''describeContainerInstances''],
      [''describeContainerInstances'', ''describeInstances''],
      [''describeContainerInstances'', ''describeInstances'', ''changeResourceRecordSets'']}"
proof (cases "fst (resolve_public_ip aws task cl)")
  case (Inl e)
  with operations_resolve_public_ip [of aws task cl] show ?thesis
    by (auto simp: requests_publish_for_tags)
next
  case (Inr resolved)
  show ?thesis
  proof (cases resolved)
    case None
    with Inr requests_resolve_public_ip_None [of aws task cl] show ?thesis
      by (simp add: requests_publish_for_tags)
  next
    case (Some ip)
    with Inr operations_resolve_public_ip_Some [of aws task cl ip] show ?thesis
      by (auto simp: requests_publish_for_tags requests_upsert_task_record split: sum.splits)
  qed
qed

lemma handler_preamble_Inl:
  "preamble event = Inl e \<Longrightarrow>
   fst (handler aws event) = Inl e \<and> requests (snd (handler aws event)) = []"
  by (auto simp: preamble_def handler_def fst_bind_io snd_bind_io bind_exn_def
        split: sum.splits)

lemma handler_preamble_Inr:
  "preamble event = Inr (task, cl, arn, n) \<Longrightarrow>
   fst (handler aws event) = fst (bind_io (fetchTags aws arn) (publish_for_tags aws task cl n)) \<and>
   snd (handler aws event) =
     [ConsoleLog ''Received event: %j'' [event],
      ConsoleLog ''clusterArn: ${clusterArn}, taskArn : ${taskArn}'' [cl, arn]] @
     snd (bind_io (fetchTags aws arn) (publish_for_tags aws task cl n))"
  by (auto simp: preamble_def handler_def fst_bind_io snd_bind_io bind_exn_def
        split: sum.splits)

lemma requests_handler:
  "preamble event = Inr (task, cl, arn, n) \<Longrightarrow>
   requests (snd (handler aws event)) =
     ListTagsForResource (JObj [(''resourceArn'', arn)]) #
     (case fst (fetchTags aws arn) of
        Inl e \<Rightarrow> []
      | Inr tags \<Rightarrow> requests (snd (publish_for_tags aws task cl n tags)))"
  by (simp add: handler_preamble_Inr snd_bind_io snd_fetchTags split: sum.splits)

lemma operations_handler:
  "map operation (requests (snd (handler aws event))) \<in>
     {[],
      [''listTagsForResource''],
      [''listTagsForResource'', ''describeNetworkInterfaces''],
      [''listTagsForResource'', ''describeNetworkInterfaces'', ''changeResourceRecordSets''],
      [''listTagsForResource'', ''describeContainerInstances''],
      [''listTagsForResource'', ''describeContainerInstances'', ''describeInstances''],
      [''listTagsForResource'', ''describeContainerInstances'', ''describeInstances'',
       ''changeResourceRecordSets'']}"
proof (cases "preamble event")
  case (Inl e)
  then show ?thesis by (simp add: handler_preamble_Inl)
next
  case (Inr q)
  obtain task cl arn n where q: "q = (task, cl, arn, n)" by (cases q) auto
  show ?thesis
  proof (cases "fst (fetchTags aws arn)")
    case (Inl e)
    with Inr q show ?thesis by (simp add: requests_handler)
  next
    case tags: (Inr tags)
    with Inr q operations_publish_for_tags [of aws task cl n tags] show ?thesis
      by (auto simp: requests_handler)
  qed
qed

section \<open>Two runs\<close>

lemmas run_simps =
  handler_def publish_for_tags_def resolve_public_ip_def upsert_task_record_def
  updateDnsRecord_def createRecordSet_def fetchTags_def fetchEniPublicIp_def
  fetchContainerPublicIp_def fetchEC2PublicIp_def getEniId_def eni_attachment_id_def
  tag_step_def hash_put_def hash_get_def empty_hash_def
  pure_io_def console_log_def await_def Let_def split_from.simps show_nat.simps digit_char_def


lemma fargate_run:
  "handler fargate_cloud fargate_event =
     (Inr (),
      [ConsoleLog ''Received event: %j'' [fargate_event],
       ConsoleLog ''clusterArn: ${clusterArn}, taskArn : ${taskArn}''
         [JStr ''arn:aws:ecs:eu-west-1:1:cluster/web'', JStr ''arn:aws:ecs:eu-west-1:1:task/7''],
       Send (ListTagsForResource (JObj [(''resourceArn'', JStr ''arn:aws:ecs:eu-west-1:1:task/7'')])),
       Recv (ListTagsForResource (JObj [(''resourceArn'', JStr ''arn:aws:ecs:eu-west-1:1:task/7'')]))
         (Inr tags_reply),
       ConsoleLog ''cluster: ${clusterName}, domain: ${domain}, hostedZone: ${hostedZoneId}''
         [JStr ''web'', JStr ''shop.example.org'', JStr ''Z1''],
       ConsoleLog ''Fetched eniId ${eniId}'' [JStr ''eni-1''],
       Send (DescribeNetworkInterfaces (JObj [(''NetworkInterfaceIds'', JArr [JStr ''eni-1''])])),
       Recv (DescribeNetworkInterfaces (JObj [(''NetworkInterfaceIds'', JArr [JStr ''eni-1''])]))
         (Inr interfaces_reply),
       ConsoleLog ''Fetched taskPublicIp ${taskPublicIp}'' [JStr ''198.51.100.7''],
       ConsoleLog ''task:${serviceName} public-id: ${taskPublicIp}''
         [JStr ''shop'', JStr ''198.51.100.7''],
       Send (ChangeResourceRecordSets fargate_dns_param),
       Recv (ChangeResourceRecordSets fargate_dns_param) (Inr (JObj [])),
       ConsoleLog ''updateResult: %j'' [JObj []],
       ConsoleLog ''DNS record update finished for ${domain} (${taskPublicIp})''
         [JStr ''shop.example.org'', JStr ''198.51.100.7'']])"
  by (simp add: run_simps fargate_event_def fargate_task_def example_attachments_def tags_reply_def shop_tag_list_def
        interfaces_reply_def fargate_dns_param_def)


lemma failing_run:
  "handler failing_cloud fargate_event =
     (Inl (ServiceError (JStr ''ThrottlingException'')),
      [ConsoleLog ''Received event: %j'' [fargate_event],
       ConsoleLog ''clusterArn: ${clusterArn}, taskArn : ${taskArn}''
         [JStr ''arn:aws:ecs:eu-west-1:1:cluster/web'', JStr ''arn:aws:ecs:eu-west-1:1:task/7''],
       Send (ListTagsForResource (JObj [(''resourceArn'', JStr ''arn:aws:ecs:eu-west-1:1:task/7'')])),
       Recv (ListTagsForResource (JObj [(''resourceArn'', JStr ''arn:aws:ecs:eu-west-1:1:task/7'')]))
         (Inr tags_reply),
       ConsoleLog ''cluster: ${clusterName}, domain: ${domain}, hostedZone: ${hostedZoneId}''
         [JStr ''web'', JStr ''shop.example.org'', JStr ''Z1''],
       ConsoleLog ''Fetched eniId ${eniId}'' [JStr ''eni-1''],
       Send (DescribeNetworkInterfaces (JObj [(''NetworkInterfaceIds'', JArr [JStr ''eni-1''])])),
       Recv (DescribeNetworkInterfaces (JObj [(''NetworkInterfaceIds'', JArr [JStr ''eni-1''])]))
         (Inl (ServiceError (JStr ''ThrottlingException'')))])"
  by (simp add: run_simps fargate_event_def fargate_task_def example_attachments_def tags_reply_def shop_tag_list_def)

section \<open>Rejected calls\<close>

text \<open>
  Claim C6. When a request that the handler sent is rejected by the service, whichever
  of the five operations it is, the handler throws that very error, and the rejection
  is the last thing that happens in the invocation: no later request, no later log line.
\<close>

theorem api_error_propagates:
  assumes "Send c \<in> set (snd (handler aws event))" and "aws c = Inl e"
  shows "fst (handler aws event) = Inl e \<and>
         (\<exists>pre. snd (handler aws event) = pre @ [Send c, Recv c (Inl e)])"
  using assms orderly_handler [of aws event] by (simp add: orderly_def Send_requests)


theorem api_error_propagates_witness:
  "Send (DescribeNetworkInterfaces (JObj [(''NetworkInterfaceIds'', JArr [JStr ''eni-1''])]))
     \<in> set (snd (handler failing_cloud fargate_event)) \<and>
   failing_cloud (DescribeNetworkInterfaces (JObj [(''NetworkInterfaceIds'', JArr [JStr ''eni-1''])]))
     = Inl (ServiceError (JStr ''ThrottlingException'')) \<and>
   fst (handler failing_cloud fargate_event) = Inl (ServiceError (JStr ''ThrottlingException'')) \<and>
   requests (snd (handler failing_cloud fargate_event)) =
     [ListTagsForResource (JObj [(''resourceArn'', JStr ''arn:aws:ecs:eu-west-1:1:task/7'')]),
      DescribeNetworkInterfaces (JObj [(''NetworkInterfaceIds'', JArr [JStr ''eni-1''])])]"
  using api_error_propagates
    [of "DescribeNetworkInterfaces (JObj [(''NetworkInterfaceIds'', JArr [JStr ''eni-1''])])"
        failing_cloud fargate_event "ServiceError (JStr ''ThrottlingException'')"]
  by (simp add: failing_run)

section \<open>The order of the remote calls\<close>

lemma distinct_requests_handler: "distinct (requests (snd (handler aws event)))"
proof -
  have "distinct (map operation (requests (snd (handler aws event))))"
    using operations_handler [of aws event] by auto
  then show ?thesis by (simp add: distinct_map)
qed


text \<open>
  Claim C7. The remote events of every invocation are a sequence of calls made one
  after the other, each request followed at once by its own reply, so that no two calls
  overlap. The tag lookup comes first, then the lookups of the address (the network
  interface, or the container instance and then the instance), then at most one DNS
  change, which is therefore never sent before the tag lookup and the address lookups
  are over; and every call but the last has been answered, not rejected.
\<close>

theorem handler_calls_sequential:
  "remote (snd (handler aws event)) = exchanges aws (requests (snd (handler aws event))) \<and>
   map operation (requests (snd (handler aws event))) \<in>
     {[],
      [''listTagsForResource''],
      [''listTagsForResource'', ''describeNetworkInterfaces''],
      [''listTagsForResource'', ''describeNetworkInterfaces'', ''changeResourceRecordSets''],
      [''listTagsForResource'', ''describeContainerInstances''],
      [''listTagsForResource'', ''describeContainerInstances'', ''describeInstances''],
      [''listTagsForResource'', ''describeContainerInstances'', ''describeInstances'',
       ''changeResourceRecordSets'']} \<and>
   (\<forall>c\<in>set (butlast (requests (snd (handler aws event)))). \<exists>r. aws c = Inr r)"
proof (intro conjI ballI)
  show "remote (snd (handler aws event)) = exchanges aws (requests (snd (handler aws event)))"
    using orderly_handler [of aws event] by (simp add: orderly_def)
next
  show "map operation (requests (snd (handler aws event))) \<in>
     {[],
      [''listTagsForResource''],
      [''listTagsForResource'', ''describeNetworkInterfaces''],
      [''listTagsForResource'', ''describeNetworkInterfaces'', ''changeResourceRecordSets''],
      [''listTagsForResource'', ''describeContainerInstances''],
      [''listTagsForResource'', ''describeContainerInstances'', ''describeInstances''],
      [''listTagsForResource'', ''describeContainerInstances'', ''describeInstances'',
       ''changeResourceRecordSets'']}"
    by (rule operations_handler)
next
  fix c assume c: "c \<in> set (butlast (requests (snd (handler aws event))))"
  show "\<exists>r. aws c = Inr r"
  proof (cases "aws c")
    case (Inr r)
    then show ?thesis by blast
  next
    case (Inl e)
    from c have "c \<in> set (requests (snd (handler aws event)))"
      by (rule in_set_butlastD)
    with Inl orderly_handler [of aws event] obtain pre where
      "snd (handler aws event) = pre @ [Send c, Recv c (Inl e)]"
      by (auto simp: orderly_def)
    then have rs: "requests (snd (handler aws event)) = requests pre @ [c]"
      by simp
    with distinct_requests_handler [of aws event] have "c \<notin> set (requests pre)"
      by simp
    with c rs show ?thesis by simp
  qed
qed

theorem handler_calls_sequential_witness:
  "remote (snd (handler fargate_cloud fargate_event)) =
     [Send (ListTagsForResource (JObj [(''resourceArn'', JStr ''arn:aws:ecs:eu-west-1:1:task/7'')])),
      Recv (ListTagsForResource (JObj [(''resourceArn'', JStr ''arn:aws:ecs:eu-west-1:1:task/7'')]))
        (Inr tags_reply),
      Send (DescribeNetworkInterfaces (JObj [(''NetworkInterfaceIds'', JArr [JStr ''eni-1''])])),
      Recv (DescribeNetworkInterfaces (JObj [(''NetworkInterfaceIds'', JArr [JStr ''eni-1''])]))
        (Inr interfaces_reply),
      Send (ChangeResourceRecordSets fargate_dns_param),
      Recv (ChangeResourceRecordSets fargate_dns_param) (Inr (JObj []))] \<and>
   map operation (requests (snd (handler fargate_cloud fargate_event))) =
     [''listTagsForResource'', ''describeNetworkInterfaces'', ''changeResourceRecordSets'']"
  using handler_calls_sequential [of fargate_cloud fargate_event]
  by (simp add: fargate_run)

section \<open>The tags that are fetched\<close>

text \<open>
  \<^verbatim>\<open>fetchTags\<close> returns only when every element of the list of tags can be read. When
  the list is well formed, the map it returns holds, for every key but \<^verbatim>\<open>__proto__\<close>,
  the value of the last tag of that key.
\<close>

lemma tag_step_present:
  "present tag \<Longrightarrow> tag_step h tag = Inr (hash_put h (tag_key tag) (tag_value tag))"
  by (cases tag) (simp_all add: present_def tag_step_def tag_key_def tag_value_def)

lemma hash_put_other:
  "k \<noteq> ''__proto__'' \<Longrightarrow> hash_put h k v = h\<lparr>props := (props h)(k \<mapsto> v)\<rparr>"
  by (simp add: hash_put_def)

lemma hash_put_inert:
  assumes "parent h = ObjectPrototype" and "props h ''__proto__'' = None" and "inert v"
  shows "hash_put h ''__proto__'' v = h"
  using assms by (cases v) (simp_all add: hash_put_def)

lemma reduce_tag_step_all_present:
  assumes "reduce_exn tag_step ts h = Inr r"
  shows "list_all present ts"
  using assms
proof (induction ts arbitrary: h)
  case Nil
  then show ?case by simp
next
  case (Cons t ts)
  have t: "present t"
  proof (rule ccontr)
    assume "\<not> present t"
    then have "tag_step h t = Inl TypeError"
      by (auto simp: present_def tag_step_def)
    with Cons.prems show False by simp
  qed
  with Cons.prems have "reduce_exn tag_step ts (hash_put h (tag_key t) (tag_value t)) = Inr r"
    by (simp add: tag_step_present)
  from Cons.IH [OF this] t show ?case by simp
qed

lemma reduce_tag_step_well_formed:
  assumes "well_formed_tags ts \<and> list_all present ts"
    and "parent h = ObjectPrototype" and "props h ''__proto__'' = None"
  shows "reduce_exn tag_step ts h =
           Inr (h\<lparr>props := props h ++
                  map_of (rev (map (\<lambda>t. (tag_key t, tag_value t))
                                 (filter (\<lambda>t. tag_key t \<noteq> ''__proto__'') ts)))\<rparr>)"
  using assms
proof (induction ts arbitrary: h)
  case Nil
  then show ?case by simp
next
  case (Cons t ts)
  from Cons.prems(1) have t: "present t" "tag_key t = ''__proto__'' \<longrightarrow> inert (tag_value t)"
    and ts: "well_formed_tags ts \<and> list_all present ts"
    by (simp_all add: well_formed_tags_def)
  show ?case
  proof (cases "tag_key t = ''__proto__''")
    case True
    with t(2) have "hash_put h (tag_key t) (tag_value t) = h"
      using hash_put_inert [OF Cons.prems(2,3), of "tag_value t"] by simp
    with tag_step_present [OF t(1), of h] have "tag_step h t = Inr h"
      by (simp only:)
    then have "reduce_exn tag_step (t # ts) h = reduce_exn tag_step ts h"
      by (simp only: reduce_exn.simps bind_exn_simps)
    also note Cons.IH [OF ts Cons.prems(2,3)]
    finally show ?thesis using True by simp
  next
    case False
    let ?h = "h\<lparr>props := (props h)(tag_key t \<mapsto> tag_value t)\<rparr>"
    have "tag_step h t = Inr ?h"
      using tag_step_present [OF t(1), of h] hash_put_other [OF False, of h "tag_value t"]
      by (simp only:)
    then have "reduce_exn tag_step (t # ts) h = reduce_exn tag_step ts ?h"
      by (simp only: reduce_exn.simps bind_exn_simps)
    also have "\<dots> = Inr (?h\<lparr>props := props ?h ++
        map_of (rev (map (\<lambda>t. (tag_key t, tag_value t))
                       (filter (\<lambda>t. tag_key t \<noteq> ''__proto__'') ts)))\<rparr>)"
    proof (rule Cons.IH [OF ts])
      show "parent ?h = ObjectPrototype" using Cons.prems(2) by simp
      show "props ?h ''__proto__'' = None" using Cons.prems(3) False by simp
    qed
    also have "\<dots> = Inr (h\<lparr>props := props h ++
        map_of (rev (map (\<lambda>t. (tag_key t, tag_value t))
                       (filter (\<lambda>t. tag_key t \<noteq> ''__proto__'') (t # ts))))\<rparr>)"
      using False by simp
    finally show ?thesis .
  qed
qed

lemma map_of_find:
  "map_of (map (\<lambda>t. (f t, g t)) xs) k = map_option g (find (\<lambda>t. f t = k) xs)"
  by (induction xs) auto

lemma find_filter_other:
  "k \<noteq> p \<Longrightarrow> find (\<lambda>t. f t = k) (filter (\<lambda>t. f t \<noteq> p) xs) = find (\<lambda>t. f t = k) xs"
  by (induction xs) auto

lemma kept_tags_lookup:
  assumes "k \<noteq> ''__proto__''"
  shows "hash_get \<lparr>props = map_of (rev (map (\<lambda>t. (tag_key t, tag_value t))
                                        (filter (\<lambda>t. tag_key t \<noteq> ''__proto__'') ts))),
                   parent = ObjectPrototype\<rparr> k = last_tag_value ts k"
proof -
  have "map_of (rev (map (\<lambda>t. (tag_key t, tag_value t))
                  (filter (\<lambda>t. tag_key t \<noteq> ''__proto__'') ts))) k =
        map_option tag_value (find (\<lambda>t. tag_key t = k) (rev ts))"
  proof -
    have "rev (map (\<lambda>t. (tag_key t, tag_value t))
                  (filter (\<lambda>t. tag_key t \<noteq> ''__proto__'') ts)) =
          map (\<lambda>t. (tag_key t, tag_value t))
                  (filter (\<lambda>t. tag_key t \<noteq> ''__proto__'') (rev ts))"
      by (simp add: rev_map rev_filter)
    then show ?thesis
      using find_filter_other [OF assms, of tag_key "rev ts"]
      by (simp only: map_of_find)
  qed
  then show ?thesis
    by (cases "find (\<lambda>t. tag_key t = k) (rev ts)") (simp_all add: hash_get_def last_tag_value_def)
qed

lemma fetchTags_well_formed:
  assumes "fst (fetchTags aws arn) = Inr fetched"
  shows "\<exists>response tags.
           aws (ListTagsForResource (JObj [(''resourceArn'', arn)])) = Inr response \<and>
           get_prop response ''tags'' = Inr tags \<and>
           (well_formed_tags (collection tags) \<longrightarrow>
              (\<forall>k. k \<noteq> ''__proto__'' \<longrightarrow> hash_get fetched k = last_tag_value (collection tags) k))"
proof -
  from assms obtain response tags where
    r: "aws (ListTagsForResource (JObj [(''resourceArn'', arn)])) = Inr response" and
    t: "get_prop response ''tags'' = Inr tags" and
    f: "reduce_exn tag_step (collection tags) empty_hash = Inr fetched"
    by (auto simp: fst_fetchTags bind_exn_Inr_iff)
  have "\<forall>k. k \<noteq> ''__proto__'' \<longrightarrow> hash_get fetched k = last_tag_value (collection tags) k"
    if wf: "well_formed_tags (collection tags)"
  proof -
    have "reduce_exn tag_step (collection tags) empty_hash =
        Inr (empty_hash\<lparr>props := props empty_hash ++
          map_of (rev (map (\<lambda>t. (tag_key t, tag_value t))
                         (filter (\<lambda>t. tag_key t \<noteq> ''__proto__'') (collection tags))))\<rparr>)"
      using wf reduce_tag_step_all_present [OF f]
      by (intro reduce_tag_step_well_formed) (simp_all add: empty_hash_def)
    with f have "fetched = \<lparr>props = map_of (rev (map (\<lambda>t. (tag_key t, tag_value t))
                         (filter (\<lambda>t. tag_key t \<noteq> ''__proto__'') (collection tags)))),
                   parent = ObjectPrototype\<rparr>"
      by (simp add: empty_hash_def)
    then show ?thesis using kept_tags_lookup by simp
  qed
  with r t show ?thesis by blast
qed

section \<open>The DNS change request\<close>

lemma no_dns_in_resolve:
  "ChangeResourceRecordSets p \<notin> set (requests (snd (resolve_public_ip aws task cl)))"
proof
  assume "ChangeResourceRecordSets p \<in> set (requests (snd (resolve_public_ip aws task cl)))"
  then have "operation (ChangeResourceRecordSets p) \<in>
      set (map operation (requests (snd (resolve_public_ip aws task cl))))"
    by (simp only: set_map) (rule imageI)
  with operations_resolve_public_ip [of aws task cl] show False
    by auto
qed

lemma handler_dns_request:
  assumes "Send (ChangeResourceRecordSets p) \<in> set (snd (handler aws event))"
  shows "\<exists>task cl arn n tags ip.
           preamble event = Inr (task, cl, arn, n) \<and>
           fst (fetchTags aws arn) = Inr tags \<and>
           truthy (hash_get tags ''domain'') \<and> truthy (hash_get tags ''hostedZoneId'') \<and>
           fst (resolve_public_ip aws task cl) = Inr (Some ip) \<and>
           p = dns_param n (hash_get tags ''hostedZoneId'') (hash_get tags ''domain'') ip"
proof -
  from assms have p: "ChangeResourceRecordSets p \<in> set (requests (snd (handler aws event)))"
    by (simp add: Send_requests)
  show ?thesis
  proof (cases "preamble event")
    case (Inl e)
    with p show ?thesis by (simp add: handler_preamble_Inl)
  next
    case (Inr q)
    obtain task cl arn n where q: "q = (task, cl, arn, n)" by (cases q) auto
    with Inr have pre: "preamble event = Inr (task, cl, arn, n)" by simp
    show ?thesis
    proof (cases "fst (fetchTags aws arn)")
      case (Inl e)
      with p pre show ?thesis by (simp add: requests_handler)
    next
      case tags: (Inr tags)
      with p pre have pub:
        "ChangeResourceRecordSets p \<in> set (requests (snd (publish_for_tags aws task cl n tags)))"
        by (simp add: requests_handler)
      then have truthy: "truthy (hash_get tags ''domain'')" "truthy (hash_get tags ''hostedZoneId'')"
        by (auto simp: requests_publish_for_tags split: if_splits)
      from pub truthy no_dns_in_resolve [of p aws task cl] have
        "ChangeResourceRecordSets p \<in> set
           (case fst (resolve_public_ip aws task cl) of
              Inr (Some ip) \<Rightarrow>
                requests (snd (upsert_task_record aws task n (hash_get tags ''domain'')
                   (hash_get tags ''hostedZoneId'') ip))
            | _ \<Rightarrow> [])"
        by (simp add: requests_publish_for_tags)
      then obtain ip where
        ip: "fst (resolve_public_ip aws task cl) = Inr (Some ip)" and
        "ChangeResourceRecordSets p \<in> set (requests (snd (upsert_task_record aws task n
            (hash_get tags ''domain'') (hash_get tags ''hostedZoneId'') ip)))"
        by (cases "fst (resolve_public_ip aws task cl)") (auto split: option.splits)
      then have "p = dns_param n (hash_get tags ''hostedZoneId'') (hash_get tags ''domain'') ip"
        by (auto simp: requests_upsert_task_record split: sum.splits)
      with pre tags truthy ip show ?thesis by blast
    qed
  qed
qed

lemma preamble_Inr:
  "preamble event = Inr (task, cl, arn, n) \<Longrightarrow>
   get_prop event ''detail'' = Inr task \<and> get_prop task ''clusterArn'' = Inr cl \<and>
   get_prop task ''taskArn'' = Inr arn"
  by (auto simp: preamble_def bind_exn_Inr_iff)


text \<open>
  Claim C1. Whenever the handler sends a DNS change request, it has asked for the tags
  of the task of the event (\<^verbatim>\<open>ListTagsForResource\<close> for its \<^verbatim>\<open>taskArn\<close>), the reply
  has a list of tags, and the request is keyed by what \<^verbatim>\<open>fetchTags\<close> made of that
  list: its \<^verbatim>\<open>HostedZoneId\<close> is \<^verbatim>\<open>tags['hostedZoneId']\<close> and the \<^verbatim>\<open>Name\<close> of its
  record set is \<^verbatim>\<open>tags['domain']\<close>. When the list of the reply is well formed, these
  are the values of the last tags of the reply whose keys are \<^verbatim>\<open>hostedZoneId\<close> and
  \<^verbatim>\<open>domain\<close>.
\<close>

theorem dns_request_keyed_by_tags:
  assumes "Send (ChangeResourceRecordSets p) \<in> set (snd (handler aws event))"
  shows "\<exists>task taskArn response tags fetched.
           get_prop event ''detail'' = Inr task \<and>
           get_prop task ''taskArn'' = Inr taskArn \<and>
           aws (ListTagsForResource (JObj [(''resourceArn'', taskArn)])) = Inr response \<and>
           get_prop response ''tags'' = Inr tags \<and>
           fst (fetchTags aws taskArn) = Inr fetched \<and>
           get_prop p ''HostedZoneId'' = Inr (hash_get fetched ''hostedZoneId'') \<and>
           record_set_name p = Inr (hash_get fetched ''domain'') \<and>
           (well_formed_tags (collection tags) \<longrightarrow>
              get_prop p ''HostedZoneId'' =
                Inr (last_tag_value (collection tags) ''hostedZoneId'') \<and>
              record_set_name p = Inr (last_tag_value (collection tags) ''domain''))"
proof -
  from handler_dns_request [OF assms] obtain task cl arn n fetched ip where
    pre: "preamble event = Inr (task, cl, arn, n)" and
    tags: "fst (fetchTags aws arn) = Inr fetched" and
    p: "p = dns_param n (hash_get fetched ''hostedZoneId'') (hash_get fetched ''domain'') ip"
    by blast
  from p have fields: "get_prop p ''HostedZoneId'' = Inr (hash_get fetched ''hostedZoneId'')"
    "record_set_name p = Inr (hash_get fetched ''domain'')"
    by (simp_all add: dns_param_def record_set_name_def)
  from fetchTags_well_formed [OF tags] obtain response ts where
    r: "aws (ListTagsForResource (JObj [(''resourceArn'', arn)])) = Inr response"
      "get_prop response ''tags'' = Inr ts" and
    wf: "well_formed_tags (collection ts) \<longrightarrow>
           (\<forall>k. k \<noteq> ''__proto__'' \<longrightarrow> hash_get fetched k = last_tag_value (collection ts) k)"
    by blast
  have "well_formed_tags (collection ts) \<longrightarrow>
              get_prop p ''HostedZoneId'' =
                Inr (last_tag_value (collection ts) ''hostedZoneId'') \<and>
              record_set_name p = Inr (last_tag_value (collection ts) ''domain'')"
    using wf fields by simp
  with preamble_Inr [OF pre] tags fields r show ?thesis by blast
qed

theorem dns_request_keyed_by_tags_witness:
  "Send (ChangeResourceRecordSets fargate_dns_param) \<in>
     set (snd (handler fargate_cloud fargate_event)) \<and>
   get_prop fargate_event ''detail'' = Inr fargate_task \<and>
   get_prop fargate_task ''taskArn'' = Inr (JStr ''arn:aws:ecs:eu-west-1:1:task/7'') \<and>
   fargate_cloud (ListTagsForResource
       (JObj [(''resourceArn'', JStr ''arn:aws:ecs:eu-west-1:1:task/7'')])) = Inr tags_reply \<and>
   get_prop tags_reply ''tags'' = Inr shop_tag_list \<and>
   well_formed_tags (collection shop_tag_list) \<and>
   last_tag_value (collection shop_tag_list) ''hostedZoneId'' = JStr ''Z1'' \<and>
   last_tag_value (collection shop_tag_list) ''domain'' = JStr ''shop.example.org'' \<and>
   get_prop fargate_dns_param ''HostedZoneId'' = Inr (JStr ''Z1'') \<and>
   record_set_name fargate_dns_param = Inr (JStr ''shop.example.org'')"
proof -
  have sent: "Send (ChangeResourceRecordSets fargate_dns_param) \<in>
      set (snd (handler fargate_cloud fargate_event))"
    by (simp add: fargate_run fargate_dns_param_def)
  have event: "get_prop fargate_event ''detail'' = Inr fargate_task"
    "get_prop fargate_task ''taskArn'' = Inr (JStr ''arn:aws:ecs:eu-west-1:1:task/7'')"
    by (simp_all add: fargate_event_def fargate_task_def)
  have reply: "fargate_cloud (ListTagsForResource
        (JObj [(''resourceArn'', JStr ''arn:aws:ecs:eu-west-1:1:task/7'')])) = Inr tags_reply"
    "get_prop tags_reply ''tags'' = Inr shop_tag_list"
    "well_formed_tags (collection shop_tag_list)"
    "last_tag_value (collection shop_tag_list) ''hostedZoneId'' = JStr ''Z1''"
    "last_tag_value (collection shop_tag_list) ''domain'' = JStr ''shop.example.org''"
    by (simp_all add: tags_reply_def shop_tag_list_def well_formed_tags_def
          last_tag_value_def tag_key_def tag_value_def)
  from dns_request_keyed_by_tags [OF sent] event reply
  have "get_prop fargate_dns_param ''HostedZoneId'' = Inr (JStr ''Z1'') \<and>
      record_set_name fargate_dns_param = Inr (JStr ''shop.example.org'')"
    by auto
  with sent event reply show ?thesis by simp
qed

lemma resolve_public_ip_Some:
  assumes "fst (resolve_public_ip aws task cl) = Inr (Some ip)"
  shows "\<exists>eniId. getEniId task = Inr eniId \<and>
           (if truthy eniId then fst (fetchEniPublicIp aws eniId) = Inr ip
            else \<exists>arn. get_prop task ''containerInstanceArn'' = Inr arn \<and> truthy arn \<and>
                   fst (fetchContainerPublicIp aws
                          (JObj [(''containerInstances'', JArr [arn]), (''cluster'', cl)])) = Inr ip)"
  using assms
  by (auto simp: resolve_public_ip_def fst_bind_io split: sum.splits if_splits)


text \<open>
  Claim C4. An invocation sends at most one DNS change request, and the change batch of
  a request that is sent holds exactly one change: an \<^verbatim>\<open>UPSERT\<close> of a record set
  named by the domain tag, of type \<^verbatim>\<open>A\<close>, with TTL 180 and one resource record, whose
  value is what the lookup of the address returned (the network-interface lookup when
  the task has an ENI id, the container-instance lookup otherwise).
\<close>

theorem single_upsert_change:
  "length (filter (\<lambda>c. operation c = ''changeResourceRecordSets'')
             (requests (snd (handler aws event)))) \<le> 1 \<and>
   (\<forall>p. Send (ChangeResourceRecordSets p) \<in> set (snd (handler aws event)) \<longrightarrow>
      (\<exists>task clusterArn taskArn tags eniId ip comment.
         get_prop event ''detail'' = Inr task \<and>
         get_prop task ''clusterArn'' = Inr clusterArn \<and>
         get_prop task ''taskArn'' = Inr taskArn \<and>
         fst (fetchTags aws taskArn) = Inr tags \<and>
         getEniId task = Inr eniId \<and>
         (if truthy eniId then fst (fetchEniPublicIp aws eniId) = Inr ip
          else \<exists>arn. get_prop task ''containerInstanceArn'' = Inr arn \<and> truthy arn \<and>
                 fst (fetchContainerPublicIp aws
                        (JObj [(''containerInstances'', JArr [arn]),
                               (''cluster'', clusterArn)])) = Inr ip) \<and>
         p = JObj [(''ChangeBatch'',
                    JObj [(''Comment'', JStr comment),
                          (''Changes'',
                           JArr [JObj [(''Action'', JStr ''UPSERT''),
                                       (''ResourceRecordSet'',
                                        JObj [(''Name'', hash_get tags ''domain''),
                                              (''Type'', JStr ''A''),
                                              (''TTL'', JNum 180),
                                              (''ResourceRecords'',
                                               JArr [JObj [(''Value'', ip)]])])]])]),
                   (''HostedZoneId'', hash_get tags ''hostedZoneId'')]))"
proof (intro conjI allI impI)
  have "map operation (filter (\<lambda>c. operation c = ''changeResourceRecordSets'')
          (requests (snd (handler aws event)))) =
        filter (\<lambda>s. s = ''changeResourceRecordSets'')
          (map operation (requests (snd (handler aws event))))"
    by (simp add: filter_map comp_def)
  moreover have "length (filter (\<lambda>s. s = ''changeResourceRecordSets'')
          (map operation (requests (snd (handler aws event))))) \<le> 1"
    using operations_handler [of aws event] by auto
  ultimately show "length (filter (\<lambda>c. operation c = ''changeResourceRecordSets'')
             (requests (snd (handler aws event)))) \<le> 1"
    by (metis length_map)
next
  fix p assume "Send (ChangeResourceRecordSets p) \<in> set (snd (handler aws event))"
  from handler_dns_request [OF this] obtain task cl arn n tags ip where
    pre: "preamble event = Inr (task, cl, arn, n)" and
    tags: "fst (fetchTags aws arn) = Inr tags" and
    ip: "fst (resolve_public_ip aws task cl) = Inr (Some ip)" and
    p: "p = dns_param n (hash_get tags ''hostedZoneId'') (hash_get tags ''domain'') ip"
    by blast
  from resolve_public_ip_Some [OF ip] obtain eniId where
    eni: "getEniId task = Inr eniId"
      "if truthy eniId then fst (fetchEniPublicIp aws eniId) = Inr ip
       else \<exists>arn. get_prop task ''containerInstanceArn'' = Inr arn \<and> truthy arn \<and>
              fst (fetchContainerPublicIp aws
                     (JObj [(''containerInstances'', JArr [arn]), (''cluster'', cl)])) = Inr ip"
    by blast
  from p have "p = JObj [(''ChangeBatch'',
                    JObj [(''Comment'',
                           JStr (''Auto generated Record for ECS cluster '' @ to_string n)),
                          (''Changes'',
                           JArr [JObj [(''Action'', JStr ''UPSERT''),
                                       (''ResourceRecordSet'',
                                        JObj [(''Name'', hash_get tags ''domain''),
                                              (''Type'', JStr ''A''),
                                              (''TTL'', JNum 180),
                                              (''ResourceRecords'',
                                               JArr [JObj [(''Value'', ip)]])])]])]),
                   (''HostedZoneId'', hash_get tags ''hostedZoneId'')]"
    by (simp add: dns_param_def)
  with preamble_Inr [OF pre] tags eni
  show "\<exists>task clusterArn taskArn tags eniId ip comment.
         get_prop event ''detail'' = Inr task \<and>
         get_prop task ''clusterArn'' = Inr clusterArn \<and>
         get_prop task ''taskArn'' = Inr taskArn \<and>
         fst (fetchTags aws taskArn) = Inr tags \<and>
         getEniId task = Inr eniId \<and>
         (if truthy eniId then fst (fetchEniPublicIp aws eniId) = Inr ip
          else \<exists>arn. get_prop task ''containerInstanceArn'' = Inr arn \<and> truthy arn \<and>
                 fst (fetchContainerPublicIp aws
                        (JObj [(''containerInstances'', JArr [arn]),
                               (''cluster'', clusterArn)])) = Inr ip) \<and>
         p = JObj [(''ChangeBatch'',
                    JObj [(''Comment'', JStr comment),
                          (''Changes'',
                           JArr [JObj [(''Action'', JStr ''UPSERT''),
                                       (''ResourceRecordSet'',
                                        JObj [(''Name'', hash_get tags ''domain''),
                                              (''Type'', JStr ''A''),
                                              (''TTL'', JNum 180),
                                              (''ResourceRecords'',
                                               JArr [JObj [(''Value'', ip)]])])]])]),
                   (''HostedZoneId'', hash_get tags ''hostedZoneId'')]"
    by blast
qed

theorem single_upsert_change_witness:
  "requests (snd (handler fargate_cloud fargate_event)) =
     [ListTagsForResource (JObj [(''resourceArn'', JStr ''arn:aws:ecs:eu-west-1:1:task/7'')]),
      DescribeNetworkInterfaces (JObj [(''NetworkInterfaceIds'', JArr [JStr ''eni-1''])]),
      ChangeResourceRecordSets fargate_dns_param] \<and>
   fst (fetchEniPublicIp fargate_cloud (JStr ''eni-1'')) = Inr (JStr ''198.51.100.7'') \<and>
   record_set_name fargate_dns_param = Inr (JStr ''shop.example.org'')"
  using single_upsert_change [of fargate_cloud fargate_event]
  by (simp add: fargate_run fargate_dns_param_def record_set_name_def fetchEniPublicIp_def
        interfaces_reply_def await_def pure_io_def)

section \<open>Tags that are missing\<close>

lemma publish_for_tags_skip:
  assumes "\<not> truthy (hash_get tags ''domain'') \<or> \<not> truthy (hash_get tags ''hostedZoneId'')"
  shows "publish_for_tags aws task cl n tags =
     (Inr (),
      [ConsoleLog ''cluster: ${clusterName}, domain: ${domain}, hostedZone: ${hostedZoneId}''
         [n, hash_get tags ''domain'', hash_get tags ''hostedZoneId''],
       ConsoleLog
         ''Skipping. Reason: no \"domain\" and/or \"hostedZoneId\" tags found for cluster ${clusterArn}''
         [cl]])"
  using assms by (auto simp: publish_for_tags_def Let_def console_log_def)

text \<open>
  Claim C2. When the tag map fetched for the task ARN has no \<^verbatim>\<open>domain\<close> or no
  \<^verbatim>\<open>hostedZoneId\<close> that counts as true (the tag is absent, or its value is missing or
  empty), the handler prints the skipping message and returns normally. The tag lookup
  is the only request of the invocation: no DNS change, no further lookup, no
  exception.
\<close>

theorem missing_tags_skip:
  assumes "preamble event = Inr (task, clusterArn, taskArn, clusterName)"
    and "fst (fetchTags aws taskArn) = Inr tags"
    and "\<not> truthy (hash_get tags ''domain'') \<or> \<not> truthy (hash_get tags ''hostedZoneId'')"
  shows "handler aws event =
     (Inr (),
      [ConsoleLog ''Received event: %j'' [event],
       ConsoleLog ''clusterArn: ${clusterArn}, taskArn : ${taskArn}'' [clusterArn, taskArn],
       Send (ListTagsForResource (JObj [(''resourceArn'', taskArn)])),
       Recv (ListTagsForResource (JObj [(''resourceArn'', taskArn)]))
         (aws (ListTagsForResource (JObj [(''resourceArn'', taskArn)]))),
       ConsoleLog ''cluster: ${clusterName}, domain: ${domain}, hostedZone: ${hostedZoneId}''
         [clusterName, hash_get tags ''domain'', hash_get tags ''hostedZoneId''],
       ConsoleLog
         ''Skipping. Reason: no \"domain\" and/or \"hostedZoneId\" tags found for cluster ${clusterArn}''
         [clusterArn]])"
proof (rule prod_eqI)
  note run = handler_preamble_Inr [OF assms(1), of aws] bind_io_Inr [OF assms(2)]
    publish_for_tags_skip [OF assms(3)]
  show "fst (handler aws event) = fst (Inr (), [ConsoleLog ''Received event: %j'' [event],
       ConsoleLog ''clusterArn: ${clusterArn}, taskArn : ${taskArn}'' [clusterArn, taskArn],
       Send (ListTagsForResource (JObj [(''resourceArn'', taskArn)])),
       Recv (ListTagsForResource (JObj [(''resourceArn'', taskArn)]))
         (aws (ListTagsForResource (JObj [(''resourceArn'', taskArn)]))),
       ConsoleLog ''cluster: ${clusterName}, domain: ${domain}, hostedZone: ${hostedZoneId}''
         [clusterName, hash_get tags ''domain'', hash_get tags ''hostedZoneId''],
       ConsoleLog
         ''Skipping. Reason: no \"domain\" and/or \"hostedZoneId\" tags found for cluster ${clusterArn}''
         [clusterArn]])"
    by (simp add: run)
  show "snd (handler aws event) = snd (Inr (), [ConsoleLog ''Received event: %j'' [event],
       ConsoleLog ''clusterArn: ${clusterArn}, taskArn : ${taskArn}'' [clusterArn, taskArn],
       Send (ListTagsForResource (JObj [(''resourceArn'', taskArn)])),
       Recv (ListTagsForResource (JObj [(''resourceArn'', taskArn)]))
         (aws (ListTagsForResource (JObj [(''resourceArn'', taskArn)]))),
       ConsoleLog ''cluster: ${clusterName}, domain: ${domain}, hostedZone: ${hostedZoneId}''
         [clusterName, hash_get tags ''domain'', hash_get tags ''hostedZoneId''],
       ConsoleLog
         ''Skipping. Reason: no \"domain\" and/or \"hostedZoneId\" tags found for cluster ${clusterArn}''
         [clusterArn]])"
    by (simp add: run snd_fetchTags)
qed

lemma fargate_preamble:
  "preamble fargate_event =
     Inr (fargate_task, JStr ''arn:aws:ecs:eu-west-1:1:cluster/web'',
          JStr ''arn:aws:ecs:eu-west-1:1:task/7'', JStr ''web'')"
  by (simp add: preamble_def fargate_event_def fargate_task_def split_from.simps)

lemma fetchTags_reply:
  "aws (ListTagsForResource (JObj [(''resourceArn'', arn)])) = Inr tags_reply \<Longrightarrow>
   fst (fetchTags aws arn) = Inr shop_tags"
  by (simp add: fst_fetchTags tags_reply_def shop_tag_list_def tag_step_def hash_put_def empty_hash_def
        shop_tags_def)

lemma fetchTags_untagged:
  "fst (fetchTags (\<lambda>c. Inr untagged_reply) arn) = Inr untagged"
  by (simp add: fst_fetchTags untagged_reply_def tag_step_def hash_put_def empty_hash_def
        untagged_def)

theorem missing_tags_skip_witness:
  "preamble fargate_event =
     Inr (fargate_task, JStr ''arn:aws:ecs:eu-west-1:1:cluster/web'',
          JStr ''arn:aws:ecs:eu-west-1:1:task/7'', JStr ''web'') \<and>
   fst (fetchTags (\<lambda>c. Inr untagged_reply) (JStr ''arn:aws:ecs:eu-west-1:1:task/7'')) =
     Inr untagged \<and>
   \<not> truthy (hash_get untagged ''domain'') \<and>
   handler (\<lambda>c. Inr untagged_reply) fargate_event =
     (Inr (),
      [ConsoleLog ''Received event: %j'' [fargate_event],
       ConsoleLog ''clusterArn: ${clusterArn}, taskArn : ${taskArn}''
         [JStr ''arn:aws:ecs:eu-west-1:1:cluster/web'', JStr ''arn:aws:ecs:eu-west-1:1:task/7''],
       Send (ListTagsForResource (JObj [(''resourceArn'', JStr ''arn:aws:ecs:eu-west-1:1:task/7'')])),
       Recv (ListTagsForResource (JObj [(''resourceArn'', JStr ''arn:aws:ecs:eu-west-1:1:task/7'')]))
         (Inr untagged_reply),
       ConsoleLog ''cluster: ${clusterName}, domain: ${domain}, hostedZone: ${hostedZoneId}''
         [JStr ''web'', JStr [], JStr ''Z1''],
       ConsoleLog
         ''Skipping. Reason: no \"domain\" and/or \"hostedZoneId\" tags found for cluster ${clusterArn}''
         [JStr ''arn:aws:ecs:eu-west-1:1:cluster/web'']])"
  using missing_tags_skip
    [of fargate_event fargate_task "JStr ''arn:aws:ecs:eu-west-1:1:cluster/web''"
        "JStr ''arn:aws:ecs:eu-west-1:1:task/7''" "JStr ''web''" "\<lambda>c. Inr untagged_reply" untagged]
  by (simp add: fargate_preamble fetchTags_untagged hash_get_def untagged_def)

section \<open>The choice of the lookup\<close>

lemma publish_for_tags_proceed:
  assumes "truthy (hash_get tags ''domain'')" and "truthy (hash_get tags ''hostedZoneId'')"
  shows "publish_for_tags aws task cl n tags =
     bind_io (console_log
                ''cluster: ${clusterName}, domain: ${domain}, hostedZone: ${hostedZoneId}''
                [n, hash_get tags ''domain'', hash_get tags ''hostedZoneId'']) (\<lambda>_.
     bind_io (resolve_public_ip aws task cl) (\<lambda>resolved.
       case resolved of
         None \<Rightarrow> pure_io (Inr ())
       | Some ip \<Rightarrow>
           upsert_task_record aws task n (hash_get tags ''domain'')
             (hash_get tags ''hostedZoneId'') ip))"
  using assms by (simp add: publish_for_tags_def Let_def)

lemma getEniId_readable:
  assumes "getEniId task = Inr eniId"
  shows "\<exists>v. get_prop task k = Inr v"
proof -
  from assms obtain atts where "get_prop task ''attachments'' = Inr atts"
    by (auto simp: getEniId_def bind_exn_Inr_iff)
  then show ?thesis by (cases task) simp_all
qed

lemma resolve_public_ip_eni:
  assumes "getEniId task = Inr eniId" and "truthy eniId"
  shows "fst (resolve_public_ip aws task cl) =
           (case fst (fetchEniPublicIp aws eniId) of Inl e \<Rightarrow> Inl e | Inr ip \<Rightarrow> Inr (Some ip))"
    and "requests (snd (resolve_public_ip aws task cl)) =
           [DescribeNetworkInterfaces (JObj [(''NetworkInterfaceIds'', JArr [eniId])])]"
  using assms getEniId_readable [OF assms(1), of "''containerInstanceArn''"]
  by (auto simp: resolve_public_ip_def fst_bind_io snd_bind_io snd_fetchEniPublicIp
        split: sum.splits)

lemma resolve_public_ip_container:
  assumes "getEniId task = Inr eniId" and "\<not> truthy eniId"
    and "get_prop task ''containerInstanceArn'' = Inr arn" and "truthy arn"
  shows "fst (resolve_public_ip aws task cl) =
           (case fst (fetchContainerPublicIp aws
                   (JObj [(''containerInstances'', JArr [arn]), (''cluster'', cl)])) of
              Inl e \<Rightarrow> Inl e | Inr ip \<Rightarrow> Inr (Some ip))"
    and "requests (snd (resolve_public_ip aws task cl)) =
           requests (snd (fetchContainerPublicIp aws
                   (JObj [(''containerInstances'', JArr [arn]), (''cluster'', cl)])))"
  using assms
  by (auto simp: resolve_public_ip_def fst_bind_io snd_bind_io split: sum.splits)

lemma resolve_public_ip_neither:
  assumes "getEniId task = Inr eniId" and "\<not> truthy eniId"
    and "get_prop task ''containerInstanceArn'' = Inr arn" and "\<not> truthy arn"
  shows "resolve_public_ip aws task cl =
           (Inr None, [ConsoleLog ''Could not fetch public IP for this task'' []])"
  using assms
  by (simp add: resolve_public_ip_def pure_io_def console_log_def)

lemma fst_fetchEniPublicIp:
  "fst (fetchEniPublicIp aws eniId) =
     bind_exn (aws (DescribeNetworkInterfaces (JObj [(''NetworkInterfaceIds'', JArr [eniId])])))
       interface_public_ip"
  by (simp add: fetchEniPublicIp_def fst_bind_io interface_public_ip_def bind_exn_def
        split: sum.splits)

lemma fst_fetchEC2PublicIp:
  "fst (fetchEC2PublicIp aws i) =
     bind_exn (aws (DescribeInstances (JObj [(''InstanceIds'', JArr [i])]))) (\<lambda>found.
       if truthy found then instance_public_ip found else Inr JUndefined)"
  by (simp add: fetchEC2PublicIp_def fst_bind_io instance_public_ip_def bind_exn_def
        split: sum.splits)

lemma fetchContainerPublicIp_instance:
  assumes "aws (DescribeContainerInstances ps) = Inr data" and "truthy data"
    and "ec2_instance_id data = Inr ec2Id" and "truthy ec2Id"
  shows "requests (snd (fetchContainerPublicIp aws ps)) =
           [DescribeContainerInstances ps,
            DescribeInstances (JObj [(''InstanceIds'', JArr [ec2Id])])]"
    and "fst (fetchContainerPublicIp aws ps) =
           bind_exn (aws (DescribeInstances (JObj [(''InstanceIds'', JArr [ec2Id])]))) (\<lambda>found.
           bind_exn (if truthy found then instance_public_ip found else Inr JUndefined) (\<lambda>ip.
           Inr (if truthy ip then ip else JUndefined)))"
  using assms
  by (simp_all add: fetchContainerPublicIp_def ec2_instance_id_def snd_bind_io fst_bind_io
        requests_fetchEC2PublicIp fst_fetchEC2PublicIp bind_exn_def split: sum.splits)

lemma fetchContainerPublicIp_no_instance:
  assumes "\<forall>data ec2Id. aws (DescribeContainerInstances ps) = Inr data \<and> truthy data \<and>
             ec2_instance_id data = Inr ec2Id \<longrightarrow> \<not> truthy ec2Id"
  shows "requests (snd (fetchContainerPublicIp aws ps)) = [DescribeContainerInstances ps]"
    and "\<exists>e. fst (fetchContainerPublicIp aws ps) = Inl e"
  using assms
  by (auto simp: fetchContainerPublicIp_def ec2_instance_id_def snd_bind_io fst_bind_io
        split: sum.splits)

lemma instance_request_of_container:
  assumes "DescribeInstances p \<in> set (requests (snd (fetchContainerPublicIp aws ps)))"
  shows "\<exists>data ec2Id. aws (DescribeContainerInstances ps) = Inr data \<and> truthy data \<and>
           ec2_instance_id data = Inr ec2Id \<and> truthy ec2Id \<and>
           p = JObj [(''InstanceIds'', JArr [ec2Id])]"
proof (rule ccontr)
  assume no: "\<not> ?thesis"
  show False
  proof (cases "\<exists>data ec2Id. aws (DescribeContainerInstances ps) = Inr data \<and> truthy data \<and>
           ec2_instance_id data = Inr ec2Id \<and> truthy ec2Id")
    case True
    then obtain data ec2Id where d: "aws (DescribeContainerInstances ps) = Inr data" "truthy data"
      "ec2_instance_id data = Inr ec2Id" "truthy ec2Id" by blast
    from assms d fetchContainerPublicIp_instance(1) [of aws ps data ec2Id]
    have "p = JObj [(''InstanceIds'', JArr [ec2Id])]" by simp
    with d no show False by blast
  next
    case False
    then have "\<forall>data ec2Id. aws (DescribeContainerInstances ps) = Inr data \<and> truthy data \<and>
             ec2_instance_id data = Inr ec2Id \<longrightarrow> \<not> truthy ec2Id" by blast
    from fetchContainerPublicIp_no_instance(1) [of aws ps] this assms show False by simp
  qed
qed

lemma requests_handler_reached:
  assumes "preamble event = Inr (task, clusterArn, taskArn, clusterName)"
    and "fst (fetchTags aws taskArn) = Inr tags"
    and "truthy (hash_get tags ''domain'')" and "truthy (hash_get tags ''hostedZoneId'')"
  shows "requests (snd (handler aws event)) =
      ListTagsForResource (JObj [(''resourceArn'', taskArn)]) #
      requests (snd (resolve_public_ip aws task clusterArn)) @
        (case fst (resolve_public_ip aws task clusterArn) of
           Inr (Some ip) \<Rightarrow>
             (case service_name task of
                Inl e \<Rightarrow> []
              | Inr s \<Rightarrow>
                  [ChangeResourceRecordSets
                     (dns_param clusterName (hash_get tags ''hostedZoneId'')
                        (hash_get tags ''domain'') ip)])
         | _ \<Rightarrow> [])"
  using assms(2-4)
  by (simp add: requests_handler [OF assms(1)] requests_publish_for_tags
        requests_upsert_task_record split: sum.splits option.splits)

lemma fst_handler_throws:
  assumes "preamble event = Inr (task, clusterArn, taskArn, clusterName)"
    and "fst (fetchTags aws taskArn) = Inr tags"
    and "truthy (hash_get tags ''domain'')" and "truthy (hash_get tags ''hostedZoneId'')"
    and "fst (resolve_public_ip aws task clusterArn) = Inl e"
  shows "fst (handler aws event) = Inl e"
  using assms(2,5)
  by (simp add: handler_preamble_Inr [OF assms(1)] publish_for_tags_proceed [OF assms(3,4)]
        fst_bind_io)

lemma branch_at_line_36:
  assumes pre: "preamble event = Inr (task, clusterArn, taskArn, clusterName)"
    and tags: "fst (fetchTags aws taskArn) = Inr tags"
    and domain: "truthy (hash_get tags ''domain'')"
    and zone: "truthy (hash_get tags ''hostedZoneId'')"
    and eni: "getEniId task = Inr eniId"
    and arn: "get_prop task ''containerInstanceArn'' = Inr arn"
  shows "(truthy eniId \<longrightarrow>
            requests (snd (handler aws event)) =
              ListTagsForResource (JObj [(''resourceArn'', taskArn)]) #
              DescribeNetworkInterfaces (JObj [(''NetworkInterfaceIds'', JArr [eniId])]) #
              (case bind_exn
                      (aws (DescribeNetworkInterfaces
                              (JObj [(''NetworkInterfaceIds'', JArr [eniId])])))
                      interface_public_ip of
                 Inl e \<Rightarrow> []
               | Inr ip \<Rightarrow>
                   (case service_name task of
                      Inl e \<Rightarrow> []
                    | Inr s \<Rightarrow>
                        [ChangeResourceRecordSets
                           (dns_param clusterName (hash_get tags ''hostedZoneId'')
                              (hash_get tags ''domain'') ip)]))) \<and>
         (\<not> truthy eniId \<and> truthy arn \<longrightarrow>
            (\<forall>data ec2Id.
               aws (DescribeContainerInstances
                      (JObj [(''containerInstances'', JArr [arn]), (''cluster'', clusterArn)])) =
                 Inr data \<and>
               truthy data \<and> ec2_instance_id data = Inr ec2Id \<and> truthy ec2Id \<longrightarrow>
               requests (snd (handler aws event)) =
                 ListTagsForResource (JObj [(''resourceArn'', taskArn)]) #
                 DescribeContainerInstances
                   (JObj [(''containerInstances'', JArr [arn]), (''cluster'', clusterArn)]) #
                 DescribeInstances (JObj [(''InstanceIds'', JArr [ec2Id])]) #
                 (case bind_exn (aws (DescribeInstances (JObj [(''InstanceIds'', JArr [ec2Id])])))
                         (\<lambda>found. if truthy found then instance_public_ip found
                                   else Inr JUndefined) of
                    Inl e \<Rightarrow> []
                  | Inr ip \<Rightarrow>
                      (case service_name task of
                         Inl e \<Rightarrow> []
                       | Inr s \<Rightarrow>
                           [ChangeResourceRecordSets
                              (dns_param clusterName (hash_get tags ''hostedZoneId'')
                                 (hash_get tags ''domain'')
                                 (if truthy ip then ip else JUndefined))]))) \<and>
            ((\<forall>data ec2Id.
                aws (DescribeContainerInstances
                       (JObj [(''containerInstances'', JArr [arn]), (''cluster'', clusterArn)])) =
                  Inr data \<and>
                truthy data \<and> ec2_instance_id data = Inr ec2Id \<longrightarrow> \<not> truthy ec2Id) \<longrightarrow>
               requests (snd (handler aws event)) =
                 [ListTagsForResource (JObj [(''resourceArn'', taskArn)]),
                  DescribeContainerInstances
                    (JObj [(''containerInstances'', JArr [arn]), (''cluster'', clusterArn)])] \<and>
               (\<exists>e. fst (handler aws event) = Inl e))) \<and>
         (\<not> truthy eniId \<and> \<not> truthy arn \<longrightarrow>
            fst (handler aws event) = Inr () \<and>
            requests (snd (handler aws event)) =
              [ListTagsForResource (JObj [(''resourceArn'', taskArn)])] \<and>
            last (snd (handler aws event)) =
              ConsoleLog ''Could not fetch public IP for this task'' [])"
proof -
  note rs = requests_handler_reached [OF pre tags domain zone]
  let ?ps = "JObj [(''containerInstances'', JArr [arn]), (''cluster'', clusterArn)]"
  have fargate: "requests (snd (handler aws event)) =
              ListTagsForResource (JObj [(''resourceArn'', taskArn)]) #
              DescribeNetworkInterfaces (JObj [(''NetworkInterfaceIds'', JArr [eniId])]) #
              (case bind_exn
                      (aws (DescribeNetworkInterfaces
                              (JObj [(''NetworkInterfaceIds'', JArr [eniId])])))
                      interface_public_ip of
                 Inl e \<Rightarrow> []
               | Inr ip \<Rightarrow>
                   (case service_name task of
                      Inl e \<Rightarrow> []
                    | Inr s \<Rightarrow>
                        [ChangeResourceRecordSets
                           (dns_param clusterName (hash_get tags ''hostedZoneId'')
                              (hash_get tags ''domain'') ip)]))"
    if t: "truthy eniId"
    unfolding rs resolve_public_ip_eni [OF eni t] fst_fetchEniPublicIp
    by (simp split: sum.splits)
  have ec2_found: "requests (snd (handler aws event)) =
                 ListTagsForResource (JObj [(''resourceArn'', taskArn)]) #
                 DescribeContainerInstances ?ps #
                 DescribeInstances (JObj [(''InstanceIds'', JArr [ec2Id])]) #
                 (case bind_exn (aws (DescribeInstances (JObj [(''InstanceIds'', JArr [ec2Id])])))
                         (\<lambda>found. if truthy found then instance_public_ip found
                                   else Inr JUndefined) of
                    Inl e \<Rightarrow> []
                  | Inr ip \<Rightarrow>
                      (case service_name task of
                         Inl e \<Rightarrow> []
                       | Inr s \<Rightarrow>
                           [ChangeResourceRecordSets
                              (dns_param clusterName (hash_get tags ''hostedZoneId'')
                                 (hash_get tags ''domain'')
                                 (if truthy ip then ip else JUndefined))]))"
    if f: "\<not> truthy eniId" and t: "truthy arn"
      and d: "aws (DescribeContainerInstances ?ps) = Inr data" "truthy data"
        "ec2_instance_id data = Inr ec2Id" "truthy ec2Id"
    for data ec2Id
    unfolding rs resolve_public_ip_container [OF eni f arn t]
      fetchContainerPublicIp_instance [of aws ?ps data ec2Id, OF d]
    by (simp add: bind_exn_def split: sum.splits)
  have ec2_none: "requests (snd (handler aws event)) =
                 [ListTagsForResource (JObj [(''resourceArn'', taskArn)]),
                  DescribeContainerInstances ?ps] \<and>
               (\<exists>e. fst (handler aws event) = Inl e)"
    if f: "\<not> truthy eniId" and t: "truthy arn"
      and no: "\<forall>data ec2Id. aws (DescribeContainerInstances ?ps) = Inr data \<and> truthy data \<and>
                ec2_instance_id data = Inr ec2Id \<longrightarrow> \<not> truthy ec2Id"
  proof -
    from fetchContainerPublicIp_no_instance [of aws ?ps] no obtain e where
      r: "requests (snd (fetchContainerPublicIp aws ?ps)) = [DescribeContainerInstances ?ps]"
      and e: "fst (fetchContainerPublicIp aws ?ps) = Inl e"
      by blast
    from e have "fst (resolve_public_ip aws task clusterArn) = Inl e"
      by (simp add: resolve_public_ip_container [OF eni f arn t])
    with r fst_handler_throws [OF pre tags domain zone, of e] show ?thesis
      unfolding rs resolve_public_ip_container [OF eni f arn t]
      by simp
  qed
  have neither: "fst (handler aws event) = Inr () \<and>
            requests (snd (handler aws event)) =
              [ListTagsForResource (JObj [(''resourceArn'', taskArn)])] \<and>
            last (snd (handler aws event)) =
              ConsoleLog ''Could not fetch public IP for this task'' []"
    if f: "\<not> truthy eniId" and n: "\<not> truthy arn"
  proof -
    have none: "resolve_public_ip aws task clusterArn =
           (Inr None, [ConsoleLog ''Could not fetch public IP for this task'' []])"
      by (rule resolve_public_ip_neither [OF eni f arn n])
    note run = handler_preamble_Inr [OF pre, of aws] tags
      publish_for_tags_proceed [OF domain zone] fst_bind_io snd_bind_io
    have "fst (handler aws event) = Inr ()"
      by (simp add: run none)
    moreover have "requests (snd (handler aws event)) =
              [ListTagsForResource (JObj [(''resourceArn'', taskArn)])]"
      unfolding rs by (simp add: none)
    moreover have "last (snd (handler aws event)) =
              ConsoleLog ''Could not fetch public IP for this task'' []"
      by (simp add: run none snd_fetchTags)
    ultimately show ?thesis by simp
  qed
  from fargate ec2_found ec2_none neither show ?thesis
    by blast
qed

lemma lookup_in_resolve:
  assumes "c \<in> set (requests (snd (resolve_public_ip aws task cl)))"
  shows "\<exists>eniId arn. getEniId task = Inr eniId \<and>
           get_prop task ''containerInstanceArn'' = Inr arn \<and>
           (if truthy eniId
            then c = DescribeNetworkInterfaces (JObj [(''NetworkInterfaceIds'', JArr [eniId])])
            else truthy arn \<and>
              c \<in> set (requests (snd (fetchContainerPublicIp aws
                     (JObj [(''containerInstances'', JArr [arn]), (''cluster'', cl)])))))"
proof (cases "getEniId task")
  case (Inl e)
  with assms show ?thesis
    by (simp add: resolve_public_ip_def snd_bind_io)
next
  case (Inr eniId)
  from getEniId_readable [OF Inr, of "''containerInstanceArn''"] obtain arn where
    arn: "get_prop task ''containerInstanceArn'' = Inr arn" by blast
  show ?thesis
  proof (cases "truthy eniId")
    case True
    with assms Inr arn show ?thesis
      by (simp add: resolve_public_ip_eni)
  next
    case False
    show ?thesis
    proof (cases "truthy arn")
      case True
      with assms Inr arn False show ?thesis
        by (simp add: resolve_public_ip_container)
    next
      case no: False
      with assms Inr arn False show ?thesis
        by (simp add: resolve_public_ip_neither)
    qed
  qed
qed

lemma lookup_in_handler:
  assumes "c \<in> set (requests (snd (handler aws event)))"
    and "operation c \<in> {''describeNetworkInterfaces'', ''describeContainerInstances'',
           ''describeInstances''}"
  shows "\<exists>task cl arn n. preamble event = Inr (task, cl, arn, n) \<and>
           c \<in> set (requests (snd (resolve_public_ip aws task cl)))"
proof (cases "preamble event")
  case (Inl e)
  with assms(1) show ?thesis by (simp add: handler_preamble_Inl)
next
  case (Inr q)
  obtain task cl arn n where q: "q = (task, cl, arn, n)" by (cases q) auto
  with Inr have pre: "preamble event = Inr (task, cl, arn, n)" by simp
  from assms(2) have not_tags: "c \<noteq> ListTagsForResource (JObj [(''resourceArn'', arn)])"
    and not_dns: "\<And>p. c \<noteq> ChangeResourceRecordSets p"
    by auto
  have "c \<in> set (requests (snd (resolve_public_ip aws task cl)))"
  proof (cases "fst (fetchTags aws arn)")
    case (Inl e)
    with assms(1) not_tags show ?thesis by (simp add: requests_handler [OF pre])
  next
    case tags: (Inr tags)
    with assms(1) not_tags have
      "c \<in> set (requests (snd (publish_for_tags aws task cl n tags)))"
      by (simp add: requests_handler [OF pre])
    with not_dns show ?thesis
      by (auto simp: requests_publish_for_tags requests_upsert_task_record
            split: if_splits sum.splits option.splits)
  qed
  with pre show ?thesis by blast
qed

lemma container_requests_kinds:
  assumes "c \<in> set (requests (snd (fetchContainerPublicIp aws ps)))"
  shows "c = DescribeContainerInstances ps \<or>
         (\<exists>i. c = DescribeInstances (JObj [(''InstanceIds'', JArr [i])]))"
  using assms requests_fetchContainerPublicIp [of aws ps] by auto

lemma lookup_kinds:
  assumes "c \<in> set (requests (snd (resolve_public_ip aws task cl)))"
  shows "\<exists>eniId arn. getEniId task = Inr eniId \<and>
           get_prop task ''containerInstanceArn'' = Inr arn \<and>
           (if truthy eniId
            then c = DescribeNetworkInterfaces (JObj [(''NetworkInterfaceIds'', JArr [eniId])])
            else truthy arn \<and>
              (c = DescribeContainerInstances
                     (JObj [(''containerInstances'', JArr [arn]), (''cluster'', cl)]) \<or>
               (\<exists>i. c = DescribeInstances (JObj [(''InstanceIds'', JArr [i])]))))"
proof -
  from lookup_in_resolve [OF assms] obtain eniId arn where
    e: "getEniId task = Inr eniId" "get_prop task ''containerInstanceArn'' = Inr arn" and
    c: "if truthy eniId
        then c = DescribeNetworkInterfaces (JObj [(''NetworkInterfaceIds'', JArr [eniId])])
        else truthy arn \<and>
          c \<in> set (requests (snd (fetchContainerPublicIp aws
                 (JObj [(''containerInstances'', JArr [arn]), (''cluster'', cl)]))))"
    by blast
  show ?thesis
  proof (cases "truthy eniId")
    case True
    with e c show ?thesis by auto
  next
    case False
    with c container_requests_kinds
      [of c aws "JObj [(''containerInstances'', JArr [arn]), (''cluster'', cl)]"]
    have "truthy arn \<and>
              (c = DescribeContainerInstances
                     (JObj [(''containerInstances'', JArr [arn]), (''cluster'', cl)]) \<or>
               (\<exists>i. c = DescribeInstances (JObj [(''InstanceIds'', JArr [i])])))"
      by simp
    with e False show ?thesis by auto
  qed
qed

text \<open>
  Claim C5. In every invocation the lookups follow the launch type. A network interface
  is looked up only for a task whose ENI id counts as true, and then it is that id. A
  container instance is looked up only for a task without such an id whose
  \<^verbatim>\<open>containerInstanceArn\<close> counts as true, and then it is that container instance in
  the cluster of the task. An instance is looked up only for such a task, and then it
  is the instance that the reply about the container instance names as
  \<^verbatim>\<open>ec2InstanceId\<close>. And where the handler gets to line 36 (the tags are there) and
  \<^verbatim>\<open>getEniId\<close> returns, it branches as follows. With an ENI id that counts as true,
  the only lookup is that of the network interface, and the \<^verbatim>\<open>PublicIp\<close> of its reply
  is the value of the DNS change. Otherwise, with a \<^verbatim>\<open>containerInstanceArn\<close> that
  counts as true, the container instance is looked up: when the reply names an
  instance, that instance is looked up next and the \<^verbatim>\<open>PublicIpAddress\<close> of its reply
  is the value of the DNS change (\<^verbatim>\<open>undefined\<close> when it does not count as true); when
  the reply names none, the handler throws after this one lookup. Otherwise the handler
  prints that it could not fetch the address and returns, the tag lookup being its only
  request.
\<close>

theorem launch_type_branch:
  "(\<forall>p. DescribeNetworkInterfaces p \<in> set (requests (snd (handler aws event))) \<longrightarrow>
      (\<exists>task eniId. get_prop event ''detail'' = Inr task \<and>
         getEniId task = Inr eniId \<and> truthy eniId \<and>
         p = JObj [(''NetworkInterfaceIds'', JArr [eniId])])) \<and>
   (\<forall>p. DescribeContainerInstances p \<in> set (requests (snd (handler aws event))) \<longrightarrow>
      (\<exists>task eniId arn cl. get_prop event ''detail'' = Inr task \<and>
         getEniId task = Inr eniId \<and> \<not> truthy eniId \<and>
         get_prop task ''containerInstanceArn'' = Inr arn \<and> truthy arn \<and>
         get_prop task ''clusterArn'' = Inr cl \<and>
         p = JObj [(''containerInstances'', JArr [arn]), (''cluster'', cl)])) \<and>
   (\<forall>p. DescribeInstances p \<in> set (requests (snd (handler aws event))) \<longrightarrow>
      (\<exists>task eniId arn cl data ec2Id. get_prop event ''detail'' = Inr task \<and>
         getEniId task = Inr eniId \<and> \<not> truthy eniId \<and>
         get_prop task ''containerInstanceArn'' = Inr arn \<and> truthy arn \<and>
         get_prop task ''clusterArn'' = Inr cl \<and>
         aws (DescribeContainerInstances
                (JObj [(''containerInstances'', JArr [arn]), (''cluster'', cl)])) = Inr data \<and>
         truthy data \<and> ec2_instance_id data = Inr ec2Id \<and> truthy ec2Id \<and>
         p = JObj [(''InstanceIds'', JArr [ec2Id])])) \<and>
   (preamble event = Inr (task, clusterArn, taskArn, clusterName) \<and>
    fst (fetchTags aws taskArn) = Inr tags \<and>
    truthy (hash_get tags ''domain'') \<and> truthy (hash_get tags ''hostedZoneId'') \<and>
    getEniId task = Inr eniId \<and>
    get_prop task ''containerInstanceArn'' = Inr arn \<longrightarrow>
    (truthy eniId \<longrightarrow>
            requests (snd (handler aws event)) =
              ListTagsForResource (JObj [(''resourceArn'', taskArn)]) #
              DescribeNetworkInterfaces (JObj [(''NetworkInterfaceIds'', JArr [eniId])]) #
              (case bind_exn
                      (aws (DescribeNetworkInterfaces
                              (JObj [(''NetworkInterfaceIds'', JArr [eniId])])))
                      interface_public_ip of
                 Inl e \<Rightarrow> []
               | Inr ip \<Rightarrow>
                   (case service_name task of
                      Inl e \<Rightarrow> []
                    | Inr s \<Rightarrow>
                        [ChangeResourceRecordSets
                           (dns_param clusterName (hash_get tags ''hostedZoneId'')
                              (hash_get tags ''domain'') ip)]))) \<and>
         (\<not> truthy eniId \<and> truthy arn \<longrightarrow>
            (\<forall>data ec2Id.
               aws (DescribeContainerInstances
                      (JObj [(''containerInstances'', JArr [arn]), (''cluster'', clusterArn)])) =
                 Inr data \<and>
               truthy data \<and> ec2_instance_id data = Inr ec2Id \<and> truthy ec2Id \<longrightarrow>
               requests (snd (handler aws event)) =
                 ListTagsForResource (JObj [(''resourceArn'', taskArn)]) #
                 DescribeContainerInstances
                   (JObj [(''containerInstances'', JArr [arn]), (''cluster'', clusterArn)]) #
                 DescribeInstances (JObj [(''InstanceIds'', JArr [ec2Id])]) #
                 (case bind_exn (aws (DescribeInstances (JObj [(''InstanceIds'', JArr [ec2Id])])))
                         (\<lambda>found. if truthy found then instance_public_ip found
                                   else Inr JUndefined) of
                    Inl e \<Rightarrow> []
                  | Inr ip \<Rightarrow>
                      (case service_name task of
                         Inl e \<Rightarrow> []
                       | Inr s \<Rightarrow>
                           [ChangeResourceRecordSets
                              (dns_param clusterName (hash_get tags ''hostedZoneId'')
                                 (hash_get tags ''domain'')
                                 (if truthy ip then ip else JUndefined))]))) \<and>
            ((\<forall>data ec2Id.
                aws (DescribeContainerInstances
                       (JObj [(''containerInstances'', JArr [arn]), (''cluster'', clusterArn)])) =
                  Inr data \<and>
                truthy data \<and> ec2_instance_id data = Inr ec2Id \<longrightarrow> \<not> truthy ec2Id) \<longrightarrow>
               requests (snd (handler aws event)) =
                 [ListTagsForResource (JObj [(''resourceArn'', taskArn)]),
                  DescribeContainerInstances
                    (JObj [(''containerInstances'', JArr [arn]), (''cluster'', clusterArn)])] \<and>
               (\<exists>e. fst (handler aws event) = Inl e))) \<and>
         (\<not> truthy eniId \<and> \<not> truthy arn \<longrightarrow>
            fst (handler aws event) = Inr () \<and>
            requests (snd (handler aws event)) =
              [ListTagsForResource (JObj [(''resourceArn'', taskArn)])] \<and>
            last (snd (handler aws event)) =
              ConsoleLog ''Could not fetch public IP for this task'' []))"
proof -
  have eni: "\<forall>p. DescribeNetworkInterfaces p \<in> set (requests (snd (handler aws event))) \<longrightarrow>
        (\<exists>task eniId. get_prop event ''detail'' = Inr task \<and>
           getEniId task = Inr eniId \<and> truthy eniId \<and>
           p = JObj [(''NetworkInterfaceIds'', JArr [eniId])])"
  proof (intro allI impI)
    fix p assume "DescribeNetworkInterfaces p \<in> set (requests (snd (handler aws event)))"
    from lookup_in_handler [OF this] obtain task cl arn n where
      pre: "preamble event = Inr (task, cl, arn, n)" and
      "DescribeNetworkInterfaces p \<in> set (requests (snd (resolve_public_ip aws task cl)))"
      by auto
    from lookup_kinds [OF this(2)]
    have "\<exists>eniId. getEniId task = Inr eniId \<and> truthy eniId \<and>
        p = JObj [(''NetworkInterfaceIds'', JArr [eniId])]"
      by (fastforce split: if_splits)
    with preamble_Inr [OF pre]
    show "\<exists>task eniId. get_prop event ''detail'' = Inr task \<and>
           getEniId task = Inr eniId \<and> truthy eniId \<and>
           p = JObj [(''NetworkInterfaceIds'', JArr [eniId])]"
      by blast
  qed
  have container: "\<forall>p. DescribeContainerInstances p \<in> set (requests (snd (handler aws event))) \<longrightarrow>
        (\<exists>task eniId arn cl. get_prop event ''detail'' = Inr task \<and>
           getEniId task = Inr eniId \<and> \<not> truthy eniId \<and>
           get_prop task ''containerInstanceArn'' = Inr arn \<and> truthy arn \<and>
           get_prop task ''clusterArn'' = Inr cl \<and>
           p = JObj [(''containerInstances'', JArr [arn]), (''cluster'', cl)])"
  proof (intro allI impI)
    fix p assume "DescribeContainerInstances p \<in> set (requests (snd (handler aws event)))"
    from lookup_in_handler [OF this] obtain task cl arn n where
      pre: "preamble event = Inr (task, cl, arn, n)" and
      "DescribeContainerInstances p \<in> set (requests (snd (resolve_public_ip aws task cl)))"
      by auto
    from lookup_kinds [OF this(2)]
    have "\<exists>eniId arn. getEniId task = Inr eniId \<and> \<not> truthy eniId \<and>
        get_prop task ''containerInstanceArn'' = Inr arn \<and> truthy arn \<and>
        p = JObj [(''containerInstances'', JArr [arn]), (''cluster'', cl)]"
      by (fastforce split: if_splits)
    with preamble_Inr [OF pre]
    show "\<exists>task eniId arn cl. get_prop event ''detail'' = Inr task \<and>
           getEniId task = Inr eniId \<and> \<not> truthy eniId \<and>
           get_prop task ''containerInstanceArn'' = Inr arn \<and> truthy arn \<and>
           get_prop task ''clusterArn'' = Inr cl \<and>
           p = JObj [(''containerInstances'', JArr [arn]), (''cluster'', cl)]"
      by blast
  qed
  have ec2: "\<forall>p. DescribeInstances p \<in> set (requests (snd (handler aws event))) \<longrightarrow>
      (\<exists>task eniId arn cl data ec2Id. get_prop event ''detail'' = Inr task \<and>
         getEniId task = Inr eniId \<and> \<not> truthy eniId \<and>
         get_prop task ''containerInstanceArn'' = Inr arn \<and> truthy arn \<and>
         get_prop task ''clusterArn'' = Inr cl \<and>
         aws (DescribeContainerInstances
                (JObj [(''containerInstances'', JArr [arn]), (''cluster'', cl)])) = Inr data \<and>
         truthy data \<and> ec2_instance_id data = Inr ec2Id \<and> truthy ec2Id \<and>
         p = JObj [(''InstanceIds'', JArr [ec2Id])])"
  proof (intro allI impI)
    fix p assume p: "DescribeInstances p \<in> set (requests (snd (handler aws event)))"
    from lookup_in_handler [OF this] obtain task cl tarn n where
      pre: "preamble event = Inr (task, cl, tarn, n)" and
      "DescribeInstances p \<in> set (requests (snd (resolve_public_ip aws task cl)))"
      by auto
    from lookup_in_resolve [OF this(2)] obtain eniId arn where
      e: "getEniId task = Inr eniId" "\<not> truthy eniId"
        "get_prop task ''containerInstanceArn'' = Inr arn" "truthy arn" and
      c: "DescribeInstances p \<in> set (requests (snd (fetchContainerPublicIp aws
                 (JObj [(''containerInstances'', JArr [arn]), (''cluster'', cl)]))))"
      by (fastforce split: if_splits)
    from instance_request_of_container [OF c] obtain data ec2Id where
      "aws (DescribeContainerInstances
              (JObj [(''containerInstances'', JArr [arn]), (''cluster'', cl)])) = Inr data"
      "truthy data" "ec2_instance_id data = Inr ec2Id" "truthy ec2Id"
      "p = JObj [(''InstanceIds'', JArr [ec2Id])]"
      by blast
    with e preamble_Inr [OF pre]
    show "\<exists>task eniId arn cl data ec2Id. get_prop event ''detail'' = Inr task \<and>
         getEniId task = Inr eniId \<and> \<not> truthy eniId \<and>
         get_prop task ''containerInstanceArn'' = Inr arn \<and> truthy arn \<and>
         get_prop task ''clusterArn'' = Inr cl \<and>
         aws (DescribeContainerInstances
                (JObj [(''containerInstances'', JArr [arn]), (''cluster'', cl)])) = Inr data \<and>
         truthy data \<and> ec2_instance_id data = Inr ec2Id \<and> truthy ec2Id \<and>
         p = JObj [(''InstanceIds'', JArr [ec2Id])]"
      by blast
  qed
  note reached =
    branch_at_line_36 [of event task clusterArn taskArn clusterName aws tags eniId arn]
  show ?thesis
    apply (rule conjI [OF eni conjI [OF container conjI [OF ec2]]])
    apply (rule impI)
    apply (rule reached)
    apply simp_all
    done
qed

lemma fargate_getEniId: "getEniId fargate_task = Inr (JStr ''eni-1'')"
  by (simp add: getEniId_def eni_attachment_id_def fargate_task_def example_attachments_def)

lemma fargate_task_fields:
  "get_prop fargate_task ''containerInstanceArn'' = Inr JUndefined"
  "service_name fargate_task = Inr (JStr ''shop'')"
  by (simp_all add: fargate_task_def service_name_def split_from.simps)

lemma fargate_interface_ip:
  "interface_public_ip interfaces_reply = Inr (JStr ''198.51.100.7'')"
  by (simp add: interface_public_ip_def interfaces_reply_def)

lemma ec2_preamble:
  "preamble ec2_event =
     Inr (ec2_task, JStr ''arn:aws:ecs:eu-west-1:1:cluster/web'',
          JStr ''arn:aws:ecs:eu-west-1:1:task/8'', JStr ''web'')"
  by (simp add: preamble_def ec2_event_def ec2_task_def split_from.simps)

lemma ec2_task_fields:
  "getEniId ec2_task = Inr JUndefined"
  "get_prop ec2_task ''containerInstanceArn'' =
     Inr (JStr ''arn:aws:ecs:eu-west-1:1:container-instance/c1'')"
  "service_name ec2_task = Inr (JStr ''shop'')"
  by (simp_all add: getEniId_def eni_attachment_id_def ec2_task_def service_name_def
        split_from.simps)

lemma ec2_cloud_replies:
  "fst (fetchTags ec2_cloud arn) = Inr shop_tags"
  "ec2_instance_id containers_reply = Inr (JStr ''i-1'')"
  "truthy containers_reply"
  "truthy public_instances_reply"
  "instance_public_ip public_instances_reply = Inr (JStr ''203.0.113.9'')"
  by (simp_all add: fst_fetchTags tags_reply_def shop_tag_list_def tag_step_def hash_put_def
        empty_hash_def shop_tags_def ec2_instance_id_def containers_reply_def
        public_instances_reply_def instance_public_ip_def)

lemma bare_preamble:
  "preamble bare_event =
     Inr (bare_task, JStr ''arn:aws:ecs:eu-west-1:1:cluster/web'',
          JStr ''arn:aws:ecs:eu-west-1:1:task/9'', JStr ''web'')"
  by (simp add: preamble_def bare_event_def bare_task_def split_from.simps)

lemma bare_task_fields:
  "getEniId bare_task = Inr JUndefined"
  "get_prop bare_task ''containerInstanceArn'' = Inr JUndefined"
  by (simp_all add: getEniId_def eni_attachment_id_def bare_task_def)

theorem launch_type_branch_witness:
  "requests (snd (handler fargate_cloud fargate_event)) =
     [ListTagsForResource (JObj [(''resourceArn'', JStr ''arn:aws:ecs:eu-west-1:1:task/7'')]),
      DescribeNetworkInterfaces (JObj [(''NetworkInterfaceIds'', JArr [JStr ''eni-1''])]),
      ChangeResourceRecordSets
        (dns_param (JStr ''web'') (JStr ''Z1'') (JStr ''shop.example.org'')
           (JStr ''198.51.100.7''))] \<and>
   requests (snd (handler ec2_cloud ec2_event)) =
     [ListTagsForResource (JObj [(''resourceArn'', JStr ''arn:aws:ecs:eu-west-1:1:task/8'')]),
      DescribeContainerInstances container_params,
      DescribeInstances (JObj [(''InstanceIds'', JArr [JStr ''i-1''])]),
      ChangeResourceRecordSets
        (dns_param (JStr ''web'') (JStr ''Z1'') (JStr ''shop.example.org'')
           (JStr ''203.0.113.9''))] \<and>
   ec2_cloud (DescribeContainerInstances container_params) = Inr containers_reply \<and>
   ec2_instance_id containers_reply = Inr (JStr ''i-1'') \<and>
   ec2_cloud (DescribeInstances (JObj [(''InstanceIds'', JArr [JStr ''i-1''])])) =
     Inr public_instances_reply \<and>
   instance_public_ip public_instances_reply = Inr (JStr ''203.0.113.9'') \<and>
   fst (handler ec2_cloud bare_event) = Inr () \<and>
   requests (snd (handler ec2_cloud bare_event)) =
     [ListTagsForResource (JObj [(''resourceArn'', JStr ''arn:aws:ecs:eu-west-1:1:task/9'')])] \<and>
   last (snd (handler ec2_cloud bare_event)) =
     ConsoleLog ''Could not fetch public IP for this task'' []"
proof -
  note fargate = launch_type_branch
    [where aws = fargate_cloud and event = fargate_event and task = fargate_task
       and clusterArn = "JStr ''arn:aws:ecs:eu-west-1:1:cluster/web''"
       and taskArn = "JStr ''arn:aws:ecs:eu-west-1:1:task/7''" and clusterName = "JStr ''web''"
       and tags = shop_tags and eniId = "JStr ''eni-1''" and arn = JUndefined,
     THEN conjunct2, THEN conjunct2, THEN conjunct2]
  note ec2 = launch_type_branch
    [where aws = ec2_cloud and event = ec2_event and task = ec2_task
       and clusterArn = "JStr ''arn:aws:ecs:eu-west-1:1:cluster/web''"
       and taskArn = "JStr ''arn:aws:ecs:eu-west-1:1:task/8''" and clusterName = "JStr ''web''"
       and tags = shop_tags and eniId = JUndefined
       and arn = "JStr ''arn:aws:ecs:eu-west-1:1:container-instance/c1''",
     THEN conjunct2, THEN conjunct2, THEN conjunct2]
  note bare = launch_type_branch
    [where aws = ec2_cloud and event = bare_event and task = bare_task
       and clusterArn = "JStr ''arn:aws:ecs:eu-west-1:1:cluster/web''"
       and taskArn = "JStr ''arn:aws:ecs:eu-west-1:1:task/9''" and clusterName = "JStr ''web''"
       and tags = shop_tags and eniId = JUndefined and arn = JUndefined,
     THEN conjunct2, THEN conjunct2, THEN conjunct2]
  have tags: "truthy (hash_get shop_tags ''domain'')" "truthy (hash_get shop_tags ''hostedZoneId'')"
    "hash_get shop_tags ''domain'' = JStr ''shop.example.org''"
    "hash_get shop_tags ''hostedZoneId'' = JStr ''Z1''"
    by (simp_all add: hash_get_def shop_tags_def)
  from fargate have one:
    "requests (snd (handler fargate_cloud fargate_event)) =
     [ListTagsForResource (JObj [(''resourceArn'', JStr ''arn:aws:ecs:eu-west-1:1:task/7'')]),
      DescribeNetworkInterfaces (JObj [(''NetworkInterfaceIds'', JArr [JStr ''eni-1''])]),
      ChangeResourceRecordSets
        (dns_param (JStr ''web'') (JStr ''Z1'') (JStr ''shop.example.org'')
           (JStr ''198.51.100.7''))]"
    by (simp add: fargate_preamble fetchTags_reply fargate_getEniId tags
          fargate_task_fields fargate_interface_ip)
  from ec2 have two:
    "requests (snd (handler ec2_cloud ec2_event)) =
     [ListTagsForResource (JObj [(''resourceArn'', JStr ''arn:aws:ecs:eu-west-1:1:task/8'')]),
      DescribeContainerInstances container_params,
      DescribeInstances (JObj [(''InstanceIds'', JArr [JStr ''i-1''])]),
      ChangeResourceRecordSets
        (dns_param (JStr ''web'') (JStr ''Z1'') (JStr ''shop.example.org'')
           (JStr ''203.0.113.9''))]"
    by (simp add: ec2_preamble ec2_cloud_replies ec2_task_fields tags container_params_def)
  from bare have three:
    "fst (handler ec2_cloud bare_event) = Inr () \<and>
     requests (snd (handler ec2_cloud bare_event)) =
       [ListTagsForResource (JObj [(''resourceArn'', JStr ''arn:aws:ecs:eu-west-1:1:task/9'')])] \<and>
     last (snd (handler ec2_cloud bare_event)) =
       ConsoleLog ''Could not fetch public IP for this task'' []"
    by (simp add: bare_preamble ec2_cloud_replies bare_task_fields tags)
  from one two three show ?thesis by (simp add: ec2_cloud_replies)
qed

section \<open>Events the handler cannot process\<close>

lemma get_prop_Inl: "get_prop v k = Inl e \<Longrightarrow> e = TypeError"
  by (cases v) simp_all

lemma get_index_Inl: "get_index v i = Inl e \<Longrightarrow> e = TypeError"
  by (cases v) (simp_all add: get_prop_Inl)

lemma js_split_Inl: "js_split v sep = Inl e \<Longrightarrow> e = TypeError"
  by (cases v) simp_all

lemma js_split_not_string: "\<forall>s. v \<noteq> JStr s \<Longrightarrow> js_split v sep = Inl TypeError"
  by (cases v) simp_all

lemma preamble_Inl: "preamble event = Inl e \<Longrightarrow> e = TypeError"
  by (auto simp: preamble_def bind_exn_def split: sum.splits
        dest: get_prop_Inl get_index_Inl js_split_Inl)

lemma preamble_needs_clusterArn:
  assumes "\<forall>task s. get_prop event ''detail'' = Inr task \<longrightarrow>
             get_prop task ''clusterArn'' \<noteq> Inr (JStr s)"
  shows "preamble event = Inl TypeError"
proof (cases "preamble event")
  case (Inl e)
  then show ?thesis using preamble_Inl by blast
next
  case (Inr q)
  then obtain task cl parts where
    "get_prop event ''detail'' = Inr task" "get_prop task ''clusterArn'' = Inr cl"
    "js_split cl '':cluster/'' = Inr parts"
    by (auto simp: preamble_def bind_exn_Inr_iff)
  with assms js_split_not_string [of cl "'':cluster/''"] show ?thesis
    by auto
qed

lemma service_name_needs_group:
  assumes "\<forall>s. get_prop task ''group'' \<noteq> Inr (JStr s)"
  shows "service_name task = Inl TypeError"
proof (cases "get_prop task ''group''")
  case (Inl e)
  with get_prop_Inl [OF Inl] show ?thesis by (simp add: service_name_def)
next
  case (Inr g)
  with assms have "\<forall>s. g \<noteq> JStr s" by auto
  from js_split_not_string [OF this] Inr show ?thesis by (simp add: service_name_def)
qed

lemma upsert_task_record_throws:
  "service_name task = Inl e \<Longrightarrow> upsert_task_record aws task n d z ip = (Inl e, [])"
  by (simp add: upsert_task_record_def service_name_def pure_io_def)

lemma handler_dns_service_name:
  assumes "Send (ChangeResourceRecordSets p) \<in> set (snd (handler aws event))"
  shows "\<exists>task s. get_prop event ''detail'' = Inr task \<and> service_name task = Inr s"
proof -
  from handler_dns_request [OF assms] obtain task cl arn n tags ip where
    pre: "preamble event = Inr (task, cl, arn, n)" and
    tags: "fst (fetchTags aws arn) = Inr tags" and
    t: "truthy (hash_get tags ''domain'')" "truthy (hash_get tags ''hostedZoneId'')" and
    ip: "fst (resolve_public_ip aws task cl) = Inr (Some ip)"
    by blast
  from assms have "ChangeResourceRecordSets p \<in> set (requests (snd (handler aws event)))"
    by (simp add: Send_requests)
  with tags t ip no_dns_in_resolve [of p aws task cl]
  have "\<exists>s. service_name task = Inr s"
    by (cases "service_name task")
      (simp_all add: requests_handler [OF pre] requests_publish_for_tags
         requests_upsert_task_record)
  with preamble_Inr [OF pre] show ?thesis by blast
qed

text \<open>
  Claim C9. An event whose \<^verbatim>\<open>detail\<close> has no \<^verbatim>\<open>clusterArn\<close> string makes the handler
  throw a TypeError before any request is sent. A task whose \<^verbatim>\<open>group\<close> is not a
  string never leads to a DNS change request; and where the address of such a task has
  been resolved, the handler throws a TypeError right after the events of that lookup.
\<close>

theorem handler_partial:
  "((\<forall>task s. get_prop event ''detail'' = Inr task \<longrightarrow>
        get_prop task ''clusterArn'' \<noteq> Inr (JStr s)) \<longrightarrow>
      fst (handler aws event) = Inl TypeError \<and> requests (snd (handler aws event)) = []) \<and>
   (\<forall>task. get_prop event ''detail'' = Inr task \<and>
        (\<forall>s. get_prop task ''group'' \<noteq> Inr (JStr s)) \<longrightarrow>
      (\<forall>p. Send (ChangeResourceRecordSets p) \<notin> set (snd (handler aws event))) \<and>
      (\<forall>clusterArn taskArn clusterName tags ip.
         preamble event = Inr (task, clusterArn, taskArn, clusterName) \<and>
         fst (fetchTags aws taskArn) = Inr tags \<and>
         truthy (hash_get tags ''domain'') \<and> truthy (hash_get tags ''hostedZoneId'') \<and>
         fst (resolve_public_ip aws task clusterArn) = Inr (Some ip) \<longrightarrow>
         fst (handler aws event) = Inl TypeError \<and>
         (\<exists>pre. snd (handler aws event) = pre @ snd (resolve_public_ip aws task clusterArn))))"
proof (intro conjI allI impI)
  assume "\<forall>task s. get_prop event ''detail'' = Inr task \<longrightarrow>
        get_prop task ''clusterArn'' \<noteq> Inr (JStr s)"
  from handler_preamble_Inl [OF preamble_needs_clusterArn [OF this], of aws]
  show "fst (handler aws event) = Inl TypeError" "requests (snd (handler aws event)) = []"
    by simp_all
next
  fix task p
  assume "get_prop event ''detail'' = Inr task \<and> (\<forall>s. get_prop task ''group'' \<noteq> Inr (JStr s))"
  then have task: "get_prop event ''detail'' = Inr task" and
    "service_name task = Inl TypeError"
    using service_name_needs_group by simp_all
  then show "Send (ChangeResourceRecordSets p) \<notin> set (snd (handler aws event))"
    using handler_dns_service_name [of p aws event] by auto
next
  fix task clusterArn taskArn clusterName tags ip
  assume "get_prop event ''detail'' = Inr task \<and> (\<forall>s. get_prop task ''group'' \<noteq> Inr (JStr s))"
  then have group: "service_name task = Inl TypeError"
    using service_name_needs_group by simp
  assume "preamble event = Inr (task, clusterArn, taskArn, clusterName) \<and>
         fst (fetchTags aws taskArn) = Inr tags \<and>
         truthy (hash_get tags ''domain'') \<and> truthy (hash_get tags ''hostedZoneId'') \<and>
         fst (resolve_public_ip aws task clusterArn) = Inr (Some ip)"
  then have pre: "preamble event = Inr (task, clusterArn, taskArn, clusterName)"
    and tags: "fst (fetchTags aws taskArn) = Inr tags"
    and domain: "truthy (hash_get tags ''domain'')"
    and zone: "truthy (hash_get tags ''hostedZoneId'')"
    and ip: "fst (resolve_public_ip aws task clusterArn) = Inr (Some ip)"
    by simp_all
  note run = handler_preamble_Inr [OF pre, of aws] tags ip
    publish_for_tags_proceed [OF domain zone] fst_bind_io snd_bind_io
    upsert_task_record_throws [OF group]
  show "fst (handler aws event) = Inl TypeError"
    by (simp add: run)
  have "snd (handler aws event) =
      ([ConsoleLog ''Received event: %j'' [event],
        ConsoleLog ''clusterArn: ${clusterArn}, taskArn : ${taskArn}'' [clusterArn, taskArn]] @
       snd (fetchTags aws taskArn) @
       [ConsoleLog ''cluster: ${clusterName}, domain: ${domain}, hostedZone: ${hostedZoneId}''
          [clusterName, hash_get tags ''domain'', hash_get tags ''hostedZoneId'']]) @
      snd (resolve_public_ip aws task clusterArn)"
    by (simp add: run)
  then show "\<exists>pre. snd (handler aws event) = pre @ snd (resolve_public_ip aws task clusterArn)"
    by blast
qed

lemma no_group_preamble:
  "preamble no_group_event =
     Inr (no_group_task, JStr ''arn:aws:ecs:eu-west-1:1:cluster/web'',
          JStr ''arn:aws:ecs:eu-west-1:1:task/7'', JStr ''web'')"
  by (simp add: preamble_def no_group_event_def no_group_task_def split_from.simps)

lemma no_group_resolved:
  "resolve_public_ip fargate_cloud no_group_task (JStr ''arn:aws:ecs:eu-west-1:1:cluster/web'') =
     (Inr (Some (JStr ''198.51.100.7'')),
      [ConsoleLog ''Fetched eniId ${eniId}'' [JStr ''eni-1''],
       Send (DescribeNetworkInterfaces (JObj [(''NetworkInterfaceIds'', JArr [JStr ''eni-1''])])),
       Recv (DescribeNetworkInterfaces (JObj [(''NetworkInterfaceIds'', JArr [JStr ''eni-1''])]))
         (Inr interfaces_reply),
       ConsoleLog ''Fetched taskPublicIp ${taskPublicIp}'' [JStr ''198.51.100.7'']])"
  by (simp add: resolve_public_ip_def getEniId_def eni_attachment_id_def no_group_task_def
        example_attachments_def fetchEniPublicIp_def interfaces_reply_def await_def pure_io_def
        console_log_def)

theorem handler_partial_witness:
  "fst (handler fargate_cloud no_cluster_event) = Inl TypeError \<and>
   requests (snd (handler fargate_cloud no_cluster_event)) = [] \<and>
   get_prop no_group_event ''detail'' = Inr no_group_task \<and>
   get_prop no_group_task ''group'' = Inr JUndefined \<and>
   fst (resolve_public_ip fargate_cloud no_group_task (JStr ''arn:aws:ecs:eu-west-1:1:cluster/web''))
     = Inr (Some (JStr ''198.51.100.7'')) \<and>
   fst (handler fargate_cloud no_group_event) = Inl TypeError \<and>
   Send (ChangeResourceRecordSets
           (dns_param (JStr ''web'') (JStr ''Z1'') (JStr ''shop.example.org'')
              (JStr ''198.51.100.7'')))
     \<notin> set (snd (handler fargate_cloud no_group_event))"
proof -
  have cluster: "\<forall>task s. get_prop no_cluster_event ''detail'' = Inr task \<longrightarrow>
      get_prop task ''clusterArn'' \<noteq> Inr (JStr s)"
    by (simp add: no_cluster_event_def)
  have group: "get_prop no_group_event ''detail'' = Inr no_group_task \<and>
      (\<forall>s. get_prop no_group_task ''group'' \<noteq> Inr (JStr s))"
    by (simp add: no_group_event_def no_group_task_def)
  have reached: "preamble no_group_event =
        Inr (no_group_task, JStr ''arn:aws:ecs:eu-west-1:1:cluster/web'',
             JStr ''arn:aws:ecs:eu-west-1:1:task/7'', JStr ''web'') \<and>
      fst (fetchTags fargate_cloud (JStr ''arn:aws:ecs:eu-west-1:1:task/7'')) = Inr shop_tags \<and>
      truthy (hash_get shop_tags ''domain'') \<and> truthy (hash_get shop_tags ''hostedZoneId'') \<and>
      fst (resolve_public_ip fargate_cloud no_group_task
             (JStr ''arn:aws:ecs:eu-west-1:1:cluster/web'')) = Inr (Some (JStr ''198.51.100.7''))"
    by (simp add: no_group_preamble fetchTags_reply no_group_resolved hash_get_def shop_tags_def)
  from handler_partial [of no_cluster_event fargate_cloud] cluster
  have "fst (handler fargate_cloud no_cluster_event) = Inl TypeError \<and>
      requests (snd (handler fargate_cloud no_cluster_event)) = []"
    by blast
  moreover from handler_partial [of no_group_event fargate_cloud] group reached
  have "fst (handler fargate_cloud no_group_event) = Inl TypeError \<and>
      Send (ChangeResourceRecordSets
           (dns_param (JStr ''web'') (JStr ''Z1'') (JStr ''shop.example.org'')
              (JStr ''198.51.100.7'')))
        \<notin> set (snd (handler fargate_cloud no_group_event))"
    by blast
  moreover have "get_prop no_group_task ''group'' = Inr JUndefined"
    by (simp add: no_group_task_def)
  ultimately show ?thesis using group reached by simp
qed

section \<open>An address that is not found\<close>

lemma private_run:
  "handler private_cloud ec2_event =
     (Inl (ServiceError (JStr ''MissingRequiredParameter'')),
      [ConsoleLog ''Received event: %j'' [ec2_event],
       ConsoleLog ''clusterArn: ${clusterArn}, taskArn : ${taskArn}''
         [JStr ''arn:aws:ecs:eu-west-1:1:cluster/web'', JStr ''arn:aws:ecs:eu-west-1:1:task/8''],
       Send (ListTagsForResource (JObj [(''resourceArn'', JStr ''arn:aws:ecs:eu-west-1:1:task/8'')])),
       Recv (ListTagsForResource (JObj [(''resourceArn'', JStr ''arn:aws:ecs:eu-west-1:1:task/8'')]))
         (Inr tags_reply),
       ConsoleLog ''cluster: ${clusterName}, domain: ${domain}, hostedZone: ${hostedZoneId}''
         [JStr ''web'', JStr ''shop.example.org'', JStr ''Z1''],
       ConsoleLog ''Fetched containerInstanceArn ${containerInstanceArn}''
         [JStr ''arn:aws:ecs:eu-west-1:1:container-instance/c1''],
       Send (DescribeContainerInstances container_params),
       Recv (DescribeContainerInstances container_params) (Inr containers_reply),
       ConsoleLog ''Fetched ec2InstanceId ${ec2Id}'' [JStr ''i-1''],
       Send (DescribeInstances (JObj [(''InstanceIds'', JArr [JStr ''i-1''])])),
       Recv (DescribeInstances (JObj [(''InstanceIds'', JArr [JStr ''i-1''])]))
         (Inr instances_reply),
       ConsoleLog ''Received data from describe Instances: %j'' [instances_reply],
       ConsoleLog ''Got Public Ip Address %s'' [JUndefined],
       ConsoleLog ''Could not fetch public IP for instance ${ec2Id}'' [JStr ''i-1''],
       ConsoleLog ''Fetched taskPublicIp ${taskPublicIp}'' [JUndefined],
       ConsoleLog ''task:${serviceName} public-id: ${taskPublicIp}'' [JStr ''shop'', JUndefined],
       Send (ChangeResourceRecordSets
               (dns_param (JStr ''web'') (JStr ''Z1'') (JStr ''shop.example.org'') JUndefined)),
       Recv (ChangeResourceRecordSets
               (dns_param (JStr ''web'') (JStr ''Z1'') (JStr ''shop.example.org'') JUndefined))
         (Inl (ServiceError (JStr ''MissingRequiredParameter'')))])"
  by (simp add: run_simps ec2_event_def ec2_task_def tags_reply_def shop_tag_list_def instances_reply_def containers_reply_def
        container_params_def dns_param_def)

text \<open>
  Claim C3 says that an invocation whose lookup yields no address logs a message and
  returns, so that no DNS change with an undefined value is ever sent. The program does
  otherwise on the run below, a task on a container instance whose EC2 instance has no
  public address: \<^verbatim>\<open>fetchContainerPublicIp\<close> prints that it could not fetch the
  address and returns \<^verbatim>\<open>undefined\<close>, the handler does not test the result and sends a
  change whose record value is \<^verbatim>\<open>undefined\<close>, and the rejection of that request is
  what the invocation throws.
\<close>

theorem unresolved_ip_is_upserted:
  "fst (fetchContainerPublicIp private_cloud container_params) = Inr JUndefined \<and>
   ConsoleLog ''Could not fetch public IP for instance ${ec2Id}'' [JStr ''i-1'']
     \<in> set (snd (handler private_cloud ec2_event)) \<and>
   Send (ChangeResourceRecordSets
           (dns_param (JStr ''web'') (JStr ''Z1'') (JStr ''shop.example.org'') JUndefined))
     \<in> set (snd (handler private_cloud ec2_event)) \<and>
   fst (handler private_cloud ec2_event) = Inl (ServiceError (JStr ''MissingRequiredParameter''))"
  by (simp add: private_run fetchContainerPublicIp_def fetchEC2PublicIp_def containers_reply_def
        instances_reply_def await_def pure_io_def console_log_def)

section \<open>A tag named \<^verbatim>\<open>__proto__\<close>\<close>

text \<open>
  Claim C10 says that the map of \<^verbatim>\<open>fetchTags\<close> has an entry for every tag key of the
  reply. For the key \<^verbatim>\<open>__proto__\<close> the assignment \<^verbatim>\<open>hash[key] = value\<close> reaches the
  setter inherited from \<^verbatim>\<open>Object.prototype\<close>, which ignores a string: the map
  returned for the reply below is the empty object.
\<close>

theorem proto_tag_has_no_entry:
  "fst (fetchTags (\<lambda>c. Inr proto_reply) (JStr ''arn:aws:ecs:eu-west-1:1:task/7'')) =
     Inr empty_hash \<and>
   props empty_hash ''__proto__'' = None"
  by (simp add: fst_fetchTags tag_step_def hash_put_def empty_hash_def proto_reply_def)

text \<open>
  For every other key the map is as described: one entry for each key, holding the
  value of the last tag of that key, and no entry when the list is empty or absent.
\<close>

lemma reduce_tag_step:
  assumes "list_all present ts" and "''__proto__'' \<notin> tag_key ` set ts"
  shows "reduce_exn tag_step ts h =
           Inr (h\<lparr>props := props h ++ map_of (rev (map (\<lambda>t. (tag_key t, tag_value t)) ts))\<rparr>)"
  using assms
proof (induction ts arbitrary: h)
  case Nil
  then show ?case by simp
next
  case (Cons t ts)
  let ?h = "h\<lparr>props := (props h)(tag_key t \<mapsto> tag_value t)\<rparr>"
  from Cons.prems have t: "present t" "tag_key t \<noteq> ''__proto__''"
    and ts: "list_all present ts" "''__proto__'' \<notin> tag_key ` set ts"
    by auto
  have step: "tag_step h t = Inr ?h"
    using tag_step_present [OF t(1), of h] hash_put_other [OF t(2), of h "tag_value t"]
    by (simp only:)
  have maps: "props ?h ++ map_of (rev (map (\<lambda>t. (tag_key t, tag_value t)) ts)) =
      props h ++ map_of (rev (map (\<lambda>t. (tag_key t, tag_value t)) (t # ts)))"
    by simp
  have "reduce_exn tag_step (t # ts) h = reduce_exn tag_step ts ?h"
    by (simp only: reduce_exn.simps step bind_exn_simps)
  also have "\<dots> = Inr (?h\<lparr>props := props ?h ++
      map_of (rev (map (\<lambda>t. (tag_key t, tag_value t)) ts))\<rparr>)"
    by (rule Cons.IH [OF ts])
  also have "\<dots> = Inr (h\<lparr>props := props h ++
      map_of (rev (map (\<lambda>t. (tag_key t, tag_value t)) (t # ts)))\<rparr>)"
    by (simp only: maps) simp
  finally show ?case .
qed

lemma fetchTags_other_keys:
  assumes "aws (ListTagsForResource (JObj [(''resourceArn'', arn)])) = Inr response"
    and "get_prop response ''tags'' = Inr tags"
    and "list_all present (collection tags)"
    and "''__proto__'' \<notin> tag_key ` set (collection tags)"
  shows "fst (fetchTags aws arn) =
           Inr \<lparr>props = map_of (rev (map (\<lambda>t. (tag_key t, tag_value t)) (collection tags))),
                parent = ObjectPrototype\<rparr>"
proof -
  have "fst (fetchTags aws arn) = reduce_exn tag_step (collection tags) empty_hash"
    using assms(1,2) by (simp add: fst_fetchTags)
  also have "\<dots> = Inr (empty_hash\<lparr>props := props empty_hash ++
      map_of (rev (map (\<lambda>t. (tag_key t, tag_value t)) (collection tags)))\<rparr>)"
    by (rule reduce_tag_step [OF assms(3,4)])
  also have "\<dots> = Inr \<lparr>props = map_of (rev (map (\<lambda>t. (tag_key t, tag_value t)) (collection tags))),
                parent = ObjectPrototype\<rparr>"
    by (simp add: empty_hash_def)
  finally show ?thesis .
qed

text \<open>
  And when the values of the tags are strings, as the service sends them, a tag named
  \<^verbatim>\<open>__proto__\<close> is the only one left out, and the prototype of the map is unchanged:
  \<^verbatim>\<open>tags['domain']\<close> and \<^verbatim>\<open>tags['hostedZoneId']\<close> are the values of the last tags of
  these names.
\<close>

lemma hash_put_string:
  assumes "parent h = ObjectPrototype" and "props h ''__proto__'' = None"
  shows "hash_put h k (JStr s) =
           (if k = ''__proto__'' then h else h\<lparr>props := (props h)(k \<mapsto> JStr s)\<rparr>)"
  using assms by (simp add: hash_put_def)

lemma reduce_tag_step_strings:
  assumes "list_all present ts"
    and "\<forall>t\<in>set ts. \<exists>s. tag_value t = JStr s"
    and "parent h = ObjectPrototype" and "props h ''__proto__'' = None"
  shows "reduce_exn tag_step ts h =
           Inr (h\<lparr>props := props h ++
                  map_of (rev (map (\<lambda>t. (tag_key t, tag_value t))
                                 (filter (\<lambda>t. tag_key t \<noteq> ''__proto__'') ts)))\<rparr>)"
  using assms
proof (induction ts arbitrary: h)
  case Nil
  then show ?case by simp
next
  case (Cons t ts)
  from Cons.prems obtain s where t: "present t" "tag_value t = JStr s"
    and ts: "list_all present ts" "\<forall>t\<in>set ts. \<exists>s. tag_value t = JStr s"
    by auto
  show ?case
  proof (cases "tag_key t = ''__proto__''")
    case True
    have "tag_step h t = Inr h"
      using tag_step_present [OF t(1), of h] hash_put_string [OF Cons.prems(3,4), of "tag_key t" s]
        t(2) True
      by (simp only: simp_thms if_True)
    then have "reduce_exn tag_step (t # ts) h = reduce_exn tag_step ts h"
      by (simp only: reduce_exn.simps bind_exn_simps)
    also note Cons.IH [OF ts Cons.prems(3,4)]
    finally show ?thesis using True by simp
  next
    case False
    let ?h = "h\<lparr>props := (props h)(tag_key t \<mapsto> tag_value t)\<rparr>"
    have "tag_step h t = Inr ?h"
      using tag_step_present [OF t(1), of h] hash_put_other [OF False, of h "tag_value t"]
      by (simp only:)
    then have "reduce_exn tag_step (t # ts) h = reduce_exn tag_step ts ?h"
      by (simp only: reduce_exn.simps bind_exn_simps)
    also have "\<dots> = Inr (?h\<lparr>props := props ?h ++
        map_of (rev (map (\<lambda>t. (tag_key t, tag_value t))
                       (filter (\<lambda>t. tag_key t \<noteq> ''__proto__'') ts)))\<rparr>)"
    proof (rule Cons.IH [OF ts])
      show "parent ?h = ObjectPrototype" using Cons.prems(3) by simp
      show "props ?h ''__proto__'' = None" using Cons.prems(4) False by simp
    qed
    also have "\<dots> = Inr (h\<lparr>props := props h ++
        map_of (rev (map (\<lambda>t. (tag_key t, tag_value t))
                       (filter (\<lambda>t. tag_key t \<noteq> ''__proto__'') (t # ts))))\<rparr>)"
      using False by simp
    finally show ?thesis .
  qed
qed

lemma fetchTags_string_values:
  assumes "aws (ListTagsForResource (JObj [(''resourceArn'', arn)])) = Inr response"
    and "get_prop response ''tags'' = Inr tags"
    and "list_all present (collection tags)"
    and "\<forall>t\<in>set (collection tags). \<exists>s. tag_value t = JStr s"
  shows "fst (fetchTags aws arn) =
           Inr \<lparr>props = map_of (rev (map (\<lambda>t. (tag_key t, tag_value t))
                                        (filter (\<lambda>t. tag_key t \<noteq> ''__proto__'')
                                           (collection tags)))),
                parent = ObjectPrototype\<rparr>"
proof -
  have "fst (fetchTags aws arn) = reduce_exn tag_step (collection tags) empty_hash"
    using assms(1,2) by (simp add: fst_fetchTags)
  also have "\<dots> = Inr (empty_hash\<lparr>props := props empty_hash ++
      map_of (rev (map (\<lambda>t. (tag_key t, tag_value t))
                     (filter (\<lambda>t. tag_key t \<noteq> ''__proto__'') (collection tags))))\<rparr>)"
    by (rule reduce_tag_step_strings [OF assms(3,4)]) (simp_all add: empty_hash_def)
  also have "\<dots> = Inr \<lparr>props = map_of (rev (map (\<lambda>t. (tag_key t, tag_value t))
                                        (filter (\<lambda>t. tag_key t \<noteq> ''__proto__'')
                                           (collection tags)))),
                parent = ObjectPrototype\<rparr>"
    by (simp add: empty_hash_def)
  finally show ?thesis .
qed

end
